theory Spec2Isabelle
  imports Main
begin

section \<open>JavaScript values, exceptions and the outside world\<close>

text \<open>
  A thrown value: an \<open>Error\<close> with its message. The errors of the contract client
  carry a \<open>shortMessage\<close> as well; \<open>new Error(m)\<close> has none.
\<close>

datatype error = Error (shortMessage: "string option") (message: string)

definition newError :: "string \<Rightarrow> error" where
  "newError m = Error None m"

text \<open>
  The enum \<open>RewardType\<close>. A drop's reward type is a number read from the contract and cast
  to the enum without a check, so a number outside the enum can occur: \<open>Unlisted\<close>.
\<close>

datatype RewardType = ETH | USDC | ERC20 | NFT | Unlisted nat

definition ZERO_ADDRESS :: string where
  "ZERO_ADDRESS = ''0x0000000000000000000000000000000000000000''"

text \<open>
  Library functions the code imports (viem and the JavaScript built-ins). They are not part
  of the repository, so they are parameters: every theorem holds for each choice of them.
  \<open>getAddress\<close> throws on a string that is not an address and \<open>BigInt\<close> on a string
  that is not an integer literal: \<open>Inl\<close> with the error thrown.
  \<open>injectFrameMeta base dropId prize html\<close> stands for the text the frame handler
  computes on success (lines 205 to 273 of the handler): the meta tags built from the
  base URL, the drop id and the prize description, injected into the page \<open>html\<close>. It is
  made of string and regular-expression operations only, none of which throws.
  \<open>parseInt\<close> yields an integer or \<open>NaN\<close> (\<open>None\<close>). The floating-point tests of the
  creation form are parameters too: \<open>parseFloat_le_0 s\<close> is \<open>parseFloat(s) <= 0\<close>, and
  \<open>rewardMismatch reward fee n\<close> is
  \<open>Math.abs(parseFloat(reward) - parseFloat((parseFloat(fee) * n).toFixed(10))) > 1e-9\<close>.
\<close>

record lib =
  isAddress :: "string \<Rightarrow> bool"
  getAddress :: "string \<Rightarrow> error + string"
  formatUnits :: "int \<Rightarrow> nat \<Rightarrow> string"
  formatEther :: "int \<Rightarrow> string"
  toUpperCase :: "string \<Rightarrow> string"
  toLowerCase :: "string \<Rightarrow> string"
  BigInt :: "string \<Rightarrow> error + int"
  injectFrameMeta :: "string \<Rightarrow> string \<Rightarrow> string \<Rightarrow> string \<Rightarrow> string"
  parseInt :: "string \<Rightarrow> int option"
  trim :: "string \<Rightarrow> string"
  parseFloat_le_0 :: "string \<Rightarrow> bool"
  rewardMismatch :: "string \<Rightarrow> string \<Rightarrow> int \<Rightarrow> bool"
  parseEther :: "string \<Rightarrow> error + int"
  parseUnits :: "string \<Rightarrow> nat \<Rightarrow> error + int"

text \<open>
  The tuple \<open>getDropInfo\<close> returns, in the contract's field order, under the names the
  page gives its components.
\<close>

record dropDetailsArray =
  dd_host :: string
  dd_sponsor :: string
  dd_rawEntryFee :: int
  dd_rawRewardAmountFromContract :: int
  dd_rewardToken :: string
  dd_rewardTypeNum :: RewardType
  dd_rewardTokenIdsBigInt :: "int list"
  dd_maxParticipants :: int
  dd_currentParticipants :: int
  dd_isActive :: bool
  dd_isCompleted :: bool
  dd_isPaidEntry :: bool
  dd_isManualSelection :: bool
  dd_isSponsored :: bool
  dd_numWinners :: nat
  dd_fundingDeadline :: int
  dd_winnersAddresses :: "string list"

text \<open>
  The body of a request to \<open>/api/send-notification\<close>: the fields of \<open>NotificationData\<close>
  and the further ones the pages send and the handler reads. An absent field is \<open>None\<close>.
\<close>

record notificationData =
  nd_category :: string
  nd_dropId :: "string option"
  nd_hostAddress :: "string option"
  nd_creatorAddress :: "string option"
  nd_sponsorAddress :: "string option"
  nd_participantAddress :: "string option"
  nd_participantName :: "string option"
  nd_winnerAddresses :: "string list option"
  nd_targetFids :: "nat list option"
  nd_rewardAmount :: "string option"
  nd_tokenSymbol :: "string option"
  nd_rewardType :: "RewardType option"
  nd_entryFee :: "string option"
  nd_maxParticipants :: "int option"
  nd_numWinners :: "int option"
  nd_prizeAmounts :: "string option"
  nd_platformFee :: "string option"
  nd_transactionHash :: "string option"

text \<open>A push notification as handed to the notification API.\<close>

record notification =
  title :: string
  body :: string
  target_url :: string

text \<open>An event of the contract as \<open>decodeEventLog\<close> decodes it, and a log of a receipt.\<close>

datatype event =
    DropCreated "int option"
  | WinnersSelected int "string list" "int list" int
  | OtherEvent string

record log =
  log_address :: string
  decoded :: "error + event"
  log_transactionHash :: string

text \<open>Arguments of a contract call, and the requests that leave the process.\<close>

datatype arg = AInt int | AStr string | AInts "int list" | ABool bool | AType RewardType

datatype request =
    ReadContract string string "arg list"
  | WriteContract string string "arg list" int
  | GetBalance string
  | WaitForTransactionReceipt string
  | SdkContext
  | PostSendNotification notificationData
  | NeynarBulkByAddress "string list"
  | NeynarNotifications "nat list" notification
  | SupabaseFrameUsers
  | ReadIndexHtml
  | ImportModule string

fun isRemoteRead :: "request \<Rightarrow> bool" where
  "isRemoteRead (ReadContract a f xs) = True"
| "isRemoteRead (GetBalance a) = True"
| "isRemoteRead r = False"

fun isNotificationSend :: "request \<Rightarrow> bool" where
  "isNotificationSend (NeynarNotifications fids n) = True"
| "isNotificationSend r = False"

text \<open>
  The identity lookup: a profile as the server caches it, a user as the identity API
  returns it, and the answer to a bulk lookup (a status that is not ok, or the body,
  whose parsing may throw). A body is an object from addresses to lists of users.
\<close>

record profile =
  fid :: "nat option"
  username :: "string option"
  displayName :: "string option"
  pfpUrl :: "string option"
  custodyAddress :: string

record neynarUser =
  nu_fid :: "nat option"
  nu_username :: "string option"
  nu_display_name :: "string option"
  nu_pfp_url :: "string option"

datatype bulkResponse = BulkNotOk nat | BulkData "error + (string \<times> neynarUser list) list"

text \<open>The answer of the store of registered users: an error, or rows with their \<open>fid\<close>.\<close>

datatype supabaseResult = SupabaseError | SupabaseData "nat option list"

text \<open>
  The user of the Farcaster context; what the notification handler returns (the \<open>data\<close>
  of a successful send is left out); and an HTTP response with its body as \<open>json()\<close>
  parses it, which may throw.
\<close>

record fcUser =
  fc_displayName :: "string option"
  fc_username :: "string option"

record sendResult =
  success :: bool
  r_message :: string

record httpResponse =
  ok :: bool
  status :: nat
  json :: "error + sendResult"

text \<open>
  What the outside answers. Each answer may depend on the request and on all requests
  made before it (the first argument), so the remote side is an arbitrary deterministic
  system; \<open>Inl\<close> is a rejected promise or an exception. Reading \<open>dist/index.html\<close> and
  importing a module are answered the same way; an import answers whether the module
  has the export the handler uses.
\<close>

record remote =
  contractAddress :: string
  reply_decimals :: "request list \<Rightarrow> string \<Rightarrow> error + nat"
  reply_symbol :: "request list \<Rightarrow> string \<Rightarrow> error + string"
  reply_balanceOf :: "request list \<Rightarrow> string \<Rightarrow> string \<Rightarrow> error + int"
  reply_getBalance :: "request list \<Rightarrow> string \<Rightarrow> error + int"
  reply_getDropInfo :: "request list \<Rightarrow> int \<Rightarrow> error + dropDetailsArray"
  reply_getDropParticipants :: "request list \<Rightarrow> int \<Rightarrow> error + string list \<times> string list"
  reply_writeContract :: "request list \<Rightarrow> request \<Rightarrow> error + string"
  reply_receipt :: "request list \<Rightarrow> string \<Rightarrow> error + log list"
  reply_sdkContext :: "request list \<Rightarrow> error + fcUser option"
  reply_sendNotification :: "request list \<Rightarrow> notificationData \<Rightarrow> error + httpResponse"
  reply_bulkByAddress :: "request list \<Rightarrow> string list \<Rightarrow> error + bulkResponse"
  reply_notifications :: "request list \<Rightarrow> nat list \<Rightarrow> notification \<Rightarrow> error + httpResponse"
  reply_frameUsers :: "request list \<Rightarrow> error + supabaseResult"
  reply_readIndexHtml :: "request list \<Rightarrow> error + string"
  reply_import :: "request list \<Rightarrow> string \<Rightarrow> error + bool"

text \<open>The part of the state every flow shares: the requests made so far, oldest first.\<close>

record world =
  calls :: "request list"

section \<open>Asynchronous code as state passing with exceptions\<close>

type_synonym ('a, 'w) action = "'w \<Rightarrow> (error + 'a) \<times> 'w"

definition succeed :: "'a \<Rightarrow> ('a, 'w) action" where
  "succeed x = (\<lambda>w. (Inr x, w))"

definition throw :: "error \<Rightarrow> ('a, 'w) action" where
  "throw e = (\<lambda>w. (Inl e, w))"

definition andThen :: "('a, 'w) action \<Rightarrow> ('a \<Rightarrow> ('b, 'w) action) \<Rightarrow> ('b, 'w) action" where
  "andThen m f = (\<lambda>w. case m w of (Inl e, w') \<Rightarrow> (Inl e, w') | (Inr x, w') \<Rightarrow> f x w')"

definition tryCatch :: "('a, 'w) action \<Rightarrow> (error \<Rightarrow> ('a, 'w) action) \<Rightarrow> ('a, 'w) action" where
  "tryCatch m h = (\<lambda>w. case m w of (Inl e, w') \<Rightarrow> h e w' | (Inr x, w') \<Rightarrow> (Inr x, w'))"

definition tryFinally :: "('a, 'w) action \<Rightarrow> ('w \<Rightarrow> 'w) \<Rightarrow> ('a, 'w) action" where
  "tryFinally m f = (\<lambda>w. case m w of (r, w') \<Rightarrow> (r, f w'))"

definition modify :: "('w \<Rightarrow> 'w) \<Rightarrow> (unit, 'w) action" where
  "modify f = (\<lambda>w. (Inr (), f w))"

definition request :: "request \<Rightarrow> (request list \<Rightarrow> error + 'a) \<Rightarrow> ('a, 'z world_scheme) action" where
  "request r reply = (\<lambda>w. (reply (calls w), w\<lparr>calls := calls w @ [r]\<rparr>))"

definition ERC20_decimals :: "remote \<Rightarrow> string \<Rightarrow> (nat, 'z world_scheme) action" where
  "ERC20_decimals R token =
     request (ReadContract token ''decimals'' []) (\<lambda>h. reply_decimals R h token)"

definition ERC20_symbol :: "remote \<Rightarrow> string \<Rightarrow> (string, 'z world_scheme) action" where
  "ERC20_symbol R token =
     request (ReadContract token ''symbol'' []) (\<lambda>h. reply_symbol R h token)"

definition ERC20_balanceOf :: "remote \<Rightarrow> string \<Rightarrow> string \<Rightarrow> (int, 'z world_scheme) action" where
  "ERC20_balanceOf R token owner =
     request (ReadContract token ''balanceOf'' [AStr owner]) (\<lambda>h. reply_balanceOf R h token owner)"

definition getBalance :: "remote \<Rightarrow> string \<Rightarrow> (int, 'z world_scheme) action" where
  "getBalance R a = request (GetBalance a) (\<lambda>h. reply_getBalance R h a)"

definition getDropInfo :: "remote \<Rightarrow> int \<Rightarrow> (dropDetailsArray, 'z world_scheme) action" where
  "getDropInfo R n =
     request (ReadContract (contractAddress R) ''getDropInfo'' [AInt n])
       (\<lambda>h. reply_getDropInfo R h n)"

definition getDropParticipants ::
  "remote \<Rightarrow> int \<Rightarrow> (string list \<times> string list, 'z world_scheme) action" where
  "getDropParticipants R n =
     request (ReadContract (contractAddress R) ''getDropParticipants'' [AInt n])
       (\<lambda>h. reply_getDropParticipants R h n)"

definition writeContract ::
  "remote \<Rightarrow> string \<Rightarrow> string \<Rightarrow> arg list \<Rightarrow> int \<Rightarrow> (string, 'z world_scheme) action" where
  "writeContract R a f xs v =
     request (WriteContract a f xs v) (\<lambda>h. reply_writeContract R h (WriteContract a f xs v))"

definition waitForTransactionReceipt :: "remote \<Rightarrow> string \<Rightarrow> (log list, 'z world_scheme) action" where
  "waitForTransactionReceipt R hash =
     request (WaitForTransactionReceipt hash) (\<lambda>h. reply_receipt R h hash)"

definition sdk_context :: "remote \<Rightarrow> (fcUser option, 'z world_scheme) action" where
  "sdk_context R = request SdkContext (reply_sdkContext R)"

definition postSendNotification ::
  "remote \<Rightarrow> notificationData \<Rightarrow> (httpResponse, 'z world_scheme) action" where
  "postSendNotification R d =
     request (PostSendNotification d) (\<lambda>h. reply_sendNotification R h d)"

definition lift :: "error + 'a \<Rightarrow> ('a, 'w) action" where
  "lift r = (\<lambda>w. (r, w))"

section \<open>Strings\<close>

text \<open>The decimal digits of a number, as a template or \<open>toString\<close> prints it.\<close>

fun number_toString :: "nat \<Rightarrow> string" where
  "number_toString n =
     (let last_digit = ''0123456789'' ! (n mod 10)
      in if 10 \<le> n then number_toString (n div 10) @ [last_digit] else [last_digit])"

declare number_toString.simps [simp del]

text \<open>\<open>a || b\<close> for a string \<open>a\<close> that may be absent: \<open>b\<close> when \<open>a\<close> is absent or empty.\<close>

definition orElse :: "string option \<Rightarrow> string \<Rightarrow> string" where
  "orElse a b = (case a of Some x \<Rightarrow> if x \<noteq> [] then x else b | None \<Rightarrow> b)"

section \<open>DropDetailPage: the reward and entry-fee formatters\<close>

text \<open>
  \<open>getTokenDecimals\<close>; the warning it logs is not modelled. The formatters take the
  public client from \<open>getContractConfig\<close>, a local call that is taken to return.
\<close>

definition getTokenDecimals :: "remote \<Rightarrow> string \<Rightarrow> (nat, 'z world_scheme) action" where
  "getTokenDecimals R tokenAddress =
     (if tokenAddress = ZERO_ADDRESS then succeed 18
      else tryCatch (ERC20_decimals R tokenAddress) (\<lambda>e. succeed 18))"

text \<open>
  \<open>formatRewardDisplay\<close>. The symbol starts as \<open>Tokens\<close> and is overwritten inside the
  \<open>try\<close>; a failed read leaves it as it was.
\<close>

definition formatRewardDisplay ::
  "lib \<Rightarrow> remote \<Rightarrow> int \<Rightarrow> RewardType \<Rightarrow> string \<Rightarrow> nat \<Rightarrow> string list
     \<Rightarrow> (string, 'z world_scheme) action" where
  "formatRewardDisplay L R rawAmount rewardType rewardTokenAddress numWinners rewardTokenIds =
     (if rewardType = ETH then succeed (formatEther L rawAmount @ '' ETH'')
      else if rewardType = USDC \<or> rewardType = ERC20 then
        andThen (getTokenDecimals R rewardTokenAddress) (\<lambda>decimals.
        andThen (tryCatch
                   (andThen (ERC20_symbol R rewardTokenAddress) (\<lambda>symbol.
                      succeed (if toUpperCase L symbol = ''FIREBALL'' then ''fire-ball''
                               else symbol)))
                   (\<lambda>e. succeed ''Tokens'')) (\<lambda>symbol.
        succeed (formatUnits L rawAmount decimals @ '' '' @ symbol)))
      else if rewardType = NFT then
        succeed (number_toString
                   (if length rewardTokenIds > 0 then length rewardTokenIds else numWinners)
                 @ '' NFT(s)'')
      else succeed ''N/A'')"

definition formatEntryFeeDisplay ::
  "lib \<Rightarrow> remote \<Rightarrow> int \<Rightarrow> bool \<Rightarrow> RewardType \<Rightarrow> string \<Rightarrow> (string, 'z world_scheme) action" where
  "formatEntryFeeDisplay L R rawAmount isPaidEntry dropRewardType entryFeeTokenAddress =
     (if \<not> isPaidEntry \<or> rawAmount = 0 then succeed ''Free''
      else if dropRewardType = USDC \<or> dropRewardType = ERC20 then
        andThen (getTokenDecimals R entryFeeTokenAddress) (\<lambda>decimals.
        andThen (tryCatch
                   (andThen (ERC20_symbol R entryFeeTokenAddress) (\<lambda>symbol.
                      succeed (if toUpperCase L symbol = ''FIREBALL'' then ''fire-ball''
                               else symbol)))
                   (\<lambda>e. succeed ''Tokens'')) (\<lambda>symbol.
        succeed (formatUnits L rawAmount decimals @ '' '' @ symbol)))
      else succeed (formatEther L rawAmount @ '' ETH''))"

section \<open>DropDetailPage: the state of the page\<close>

datatype toast = ToastError string | ToastInfo string | ToastSuccess string | ToastWarn string

record Participant =
  p_address :: string
  p_name :: string
  slot :: nat

text \<open>
  \<open>ExtendedDropInfo\<close>. \<open>Number\<close> of a \<open>bigint\<close> is taken as exact, so the numeric fields
  are integers.
\<close>

record DropInfo =
  drop_id :: int
  host :: string
  sponsor :: string
  entryFee :: string
  rewardAmount :: string
  rawEntryFee :: int
  rawRewardAmount :: int
  rewardToken :: string
  rewardType :: RewardType
  rewardTokenIds :: "string list"
  maxParticipants :: int
  currentParticipants :: int
  isActive :: bool
  isCompleted :: bool
  isPaidEntry :: bool
  isManualSelection :: bool
  isSponsored :: bool
  numWinners :: nat
  fundingDeadline :: int
  winners :: "string list"

text \<open>What a page shows and where it sends the user: the toasts and the routes navigated to.\<close>

record ui = world +
  toasts :: "toast list"
  navigations :: "string list"

text \<open>
  The \<open>useState\<close> cells of the page, and the profile lookups it asks of its hook.
\<close>

record page = ui +
  dropInfo :: "DropInfo option"
  participants :: "Participant list"
  loadingData :: bool
  actionInProgress :: bool
  error :: "string option"
  isCancelledForUI :: bool
  winnerIndices :: "int list"
  animateWinners :: bool
  profileRequests :: "string list list"

definition toast :: "toast \<Rightarrow> (unit, 'z ui_scheme) action" where
  "toast t = modify (\<lambda>w. w\<lparr>toasts := toasts w @ [t]\<rparr>)"

definition navigate :: "string \<Rightarrow> (unit, 'z ui_scheme) action" where
  "navigate route = modify (\<lambda>w. w\<lparr>navigations := navigations w @ [route]\<rparr>)"

definition getProfilesByAddresses :: "string list \<Rightarrow> (unit, 'z page_scheme) action" where
  "getProfilesByAddresses as = modify (\<lambda>w. w\<lparr>profileRequests := profileRequests w @ [as]\<rparr>)"

section \<open>DropDetailPage: fetching a drop\<close>

definition bigint_toString :: "int \<Rightarrow> string" where
  "bigint_toString i =
     (if 0 \<le> i then number_toString (nat i) else CHR ''-'' # number_toString (nat (- i)))"

text \<open>\<open>s.slice(-n)\<close>: the last \<open>n\<close> characters, all of \<open>s\<close> when it is shorter.\<close>

definition slice_last :: "nat \<Rightarrow> string \<Rightarrow> string" where
  "slice_last n s = drop (length s - n) s"

text \<open>\<open>Set.add\<close> on a set kept in insertion order.\<close>

definition setAdd :: "'a \<Rightarrow> 'a list \<Rightarrow> 'a list" where
  "setAdd x xs = (if x \<in> set xs then xs else xs @ [x])"

text \<open>\<open>if (isAddress(a)) addressesToFetchProfilesFor.add(getAddress(a))\<close>\<close>

definition addIfAddress :: "lib \<Rightarrow> string \<Rightarrow> string list \<Rightarrow> error + string list" where
  "addIfAddress L a s =
     (if isAddress L a then
        (case getAddress L a of Inl e \<Rightarrow> Inl e | Inr x \<Rightarrow> Inr (setAdd x s))
      else Inr s)"

fun addAllIfAddress :: "lib \<Rightarrow> string list \<Rightarrow> string list \<Rightarrow> error + string list" where
  "addAllIfAddress L [] s = Inr s"
| "addAllIfAddress L (a # as) s =
     (case addIfAddress L a s of Inl e \<Rightarrow> Inl e | Inr s' \<Rightarrow> addAllIfAddress L as s')"

text \<open>
  The \<open>map\<close> that builds \<open>participantList\<close>: the callback adds the address to the set and
  names the participant after the contract's name or, when that is missing or empty,
  after the last four characters of the address.
\<close>

fun participantListFrom ::
  "lib \<Rightarrow> string list \<Rightarrow> string list \<Rightarrow> nat \<Rightarrow> string list
     \<Rightarrow> error + Participant list \<times> string list" where
  "participantListFrom L [] names index s = Inr ([], s)"
| "participantListFrom L (addr # rest) names index s =
     (case addIfAddress L addr s of
        Inl e \<Rightarrow> Inl e
      | Inr s' \<Rightarrow>
          (case participantListFrom L rest names (Suc index) s' of
             Inl e \<Rightarrow> Inl e
           | Inr (ps, s'') \<Rightarrow>
               Inr (\<lparr> p_address = addr,
                      p_name = (if index < length names \<and> names ! index \<noteq> [] then names ! index
                                else ''User-'' @ slice_last 4 addr),
                      slot = index \<rparr> # ps, s'')))"

text \<open>\<open>getAddress(a) === getAddress(b)\<close>, the left call first.\<close>

definition sameAddress :: "lib \<Rightarrow> string \<Rightarrow> string \<Rightarrow> error + bool" where
  "sameAddress L a b =
     (case getAddress L a of
        Inl e \<Rightarrow> Inl e
      | Inr x \<Rightarrow> (case getAddress L b of Inl e \<Rightarrow> Inl e | Inr y \<Rightarrow> Inr (x = y)))"

text \<open>\<open>Array.findIndex\<close> with a callback that may throw; \<open>-1\<close> when nothing matches.\<close>

fun findIndex :: "('a \<Rightarrow> error + bool) \<Rightarrow> 'a list \<Rightarrow> nat \<Rightarrow> error + int" where
  "findIndex f [] i = Inr (- 1)"
| "findIndex f (x # xs) i =
     (case f x of
        Inl e \<Rightarrow> Inl e
      | Inr b \<Rightarrow> if b then Inr (int i) else findIndex f xs (Suc i))"

fun mapE :: "('a \<Rightarrow> error + 'b) \<Rightarrow> 'a list \<Rightarrow> error + 'b list" where
  "mapE f [] = Inr []"
| "mapE f (x # xs) =
     (case f x of
        Inl e \<Rightarrow> Inl e
      | Inr y \<Rightarrow> (case mapE f xs of Inl e \<Rightarrow> Inl e | Inr ys \<Rightarrow> Inr (y # ys)))"

text \<open>
  The expression both \<open>fetchAndSetDropInfo\<close> and \<open>selectWinnersManually\<close> compute:
  \<open>winners.map(w => list.findIndex(p => getAddress(p) === getAddress(w)))
  .filter(index => index !== -1)\<close>.
\<close>

definition winnerIndexList :: "lib \<Rightarrow> string list \<Rightarrow> string list \<Rightarrow> error + int list" where
  "winnerIndexList L winnerAddrs participantAddrs =
     (case mapE (\<lambda>winnerAddr. findIndex (\<lambda>pAddr. sameAddress L pAddr winnerAddr)
                                  participantAddrs 0) winnerAddrs of
        Inl e \<Rightarrow> Inl e
      | Inr is \<Rightarrow> Inr (filter (\<lambda>index. index \<noteq> - 1) is))"

definition fetchAndSetDropInfo ::
  "lib \<Rightarrow> remote \<Rightarrow> string \<Rightarrow> bool \<Rightarrow> (unit, 'z page_scheme) action" where
  "fetchAndSetDropInfo L R currentDropId isInitialLoad =
     andThen (modify (\<lambda>w. if isInitialLoad then w\<lparr>loadingData := True\<rparr> else w)) (\<lambda>_.
     tryFinally
       (tryCatch
          (andThen (lift (BigInt L currentDropId)) (\<lambda>dropIdBig.
           andThen (getDropInfo R dropIdBig) (\<lambda>t.
           andThen (lift (addIfAddress L (dd_host t) [])) (\<lambda>s1.
           andThen (lift (if dd_isSponsored t \<and> dd_sponsor t \<noteq> ZERO_ADDRESS
                          then addIfAddress L (dd_sponsor t) s1 else Inr s1)) (\<lambda>s2.
           andThen (if dd_isSponsored t \<and> dd_sponsor t = ZERO_ADDRESS \<and> dd_isActive t
                    then andThen (toast (ToastError ''This sponsored game is not funded yet.''))
                           (\<lambda>_. andThen (navigate ''/available'')
                           (\<lambda>_. throw (newError ''Unfunded sponsored game'')))
                    else succeed ()) (\<lambda>_.
           andThen (formatEntryFeeDisplay L R (dd_rawEntryFee t) (dd_isPaidEntry t)
                      (dd_rewardTypeNum t)
                      (if dd_isPaidEntry t \<and>
                          (dd_rewardTypeNum t = ERC20 \<or> dd_rewardTypeNum t = USDC)
                       then dd_rewardToken t else ZERO_ADDRESS)) (\<lambda>formattedEntryFee.
           andThen (formatRewardDisplay L R (dd_rawRewardAmountFromContract t)
                      (dd_rewardTypeNum t) (dd_rewardToken t) (dd_numWinners t)
                      (map bigint_toString (dd_rewardTokenIdsBigInt t))) (\<lambda>formattedRewardAmount.
           andThen (getDropParticipants R dropIdBig) (\<lambda>(addrs, names).
           andThen (lift (participantListFrom L addrs names 0 s2)) (\<lambda>(participantList, s3).
           andThen (modify (\<lambda>w. w\<lparr>participants := participantList\<rparr>)) (\<lambda>_.
           andThen (lift (addAllIfAddress L (dd_winnersAddresses t) s3)) (\<lambda>s4.
           andThen (modify (\<lambda>w. w\<lparr>dropInfo := Some
                      \<lparr> drop_id = dropIdBig,
                        host = dd_host t,
                        sponsor = dd_sponsor t,
                        entryFee = formattedEntryFee,
                        rewardAmount = formattedRewardAmount,
                        rawEntryFee = dd_rawEntryFee t,
                        rawRewardAmount = dd_rawRewardAmountFromContract t,
                        rewardToken = dd_rewardToken t,
                        rewardType = dd_rewardTypeNum t,
                        rewardTokenIds = map bigint_toString (dd_rewardTokenIdsBigInt t),
                        maxParticipants = dd_maxParticipants t,
                        currentParticipants = dd_currentParticipants t,
                        isActive = dd_isActive t,
                        isCompleted = dd_isCompleted t,
                        isPaidEntry = dd_isPaidEntry t,
                        isManualSelection = dd_isManualSelection t,
                        isSponsored = dd_isSponsored t,
                        numWinners = dd_numWinners t,
                        fundingDeadline = dd_fundingDeadline t,
                        winners = dd_winnersAddresses t \<rparr>,
                      isCancelledForUI := \<not> dd_isActive t \<and> dd_isCompleted t \<and>
                                          length (dd_winnersAddresses t) = 0\<rparr>)) (\<lambda>_.
           andThen (if dd_isCompleted t \<and> length (dd_winnersAddresses t) > 0 then
                      andThen (lift (winnerIndexList L (dd_winnersAddresses t)
                                       (map p_address participantList))) (\<lambda>indices.
                        if length indices > 0
                        then modify (\<lambda>w. w\<lparr>winnerIndices := indices, animateWinners := True\<rparr>)
                        else succeed ())
                    else succeed ()) (\<lambda>_.
           if length s4 > 0 then getProfilesByAddresses s4 else succeed ()))))))))))))))
          (\<lambda>err.
             andThen (modify (\<lambda>w. w\<lparr>error := Some (if message err = [] then
                                    ''Failed to fetch drop info'' else message err)\<rparr>)) (\<lambda>_.
             if message err \<noteq> ''Unfunded sponsored game''
             then toast (ToastError (if message err = [] then ''Failed to fetch drop info''
                                     else message err))
             else succeed ())))
       (\<lambda>w. if isInitialLoad then w\<lparr>loadingData := False\<rparr> else w))"

section \<open>DropDetailPage: the actions\<close>

text \<open>What the page gets from its hooks: the wallet and the \<open>dropId\<close> of the route.\<close>

record hooks =
  isConnected :: bool
  isConnecting :: bool
  isWalletClientLoading :: bool
  walletClient :: bool
  h_address :: "string option"
  h_dropId :: "string option"

text \<open>\<open>s.split(c)\<close> for a separator of one character, and \<open>parts[i]\<close> inside a template.\<close>

fun split :: "char \<Rightarrow> string \<Rightarrow> string list" where
  "split c [] = [[]]"
| "split c (x # xs) =
     (if x = c then [] # split c xs
      else (case split c xs of [] \<Rightarrow> [[x]] | y # ys \<Rightarrow> (x # y) # ys))"

definition part :: "string list \<Rightarrow> nat \<Rightarrow> string" where
  "part parts i = (if i < length parts then parts ! i else ''undefined'')"

text \<open>\<open>err.shortMessage || err.message?.split("(")[0] || fallback\<close>\<close>

definition errorMessageOf :: "error \<Rightarrow> string \<Rightarrow> string" where
  "errorMessageOf err fallback =
     (case shortMessage err of
        Some m \<Rightarrow> if m \<noteq> [] then m
                  else if part (split CHR ''('' (message err)) 0 \<noteq> []
                       then part (split CHR ''('' (message err)) 0 else fallback
      | None \<Rightarrow> if part (split CHR ''('' (message err)) 0 \<noteq> []
                then part (split CHR ''('' (message err)) 0 else fallback)"

text \<open>\<open>Array.some\<close> with a callback that may throw.\<close>

fun someE :: "('a \<Rightarrow> error + bool) \<Rightarrow> 'a list \<Rightarrow> error + bool" where
  "someE f [] = Inr False"
| "someE f (x # xs) =
     (case f x of Inl e \<Rightarrow> Inl e | Inr b \<Rightarrow> if b then Inr True else someE f xs)"

text \<open>
  A promise nobody awaits: what it does happens, what it returns or throws is dropped.
  Its steps are run at once; the source lets them interleave with what follows.
\<close>

definition detached :: "('a, 'w) action \<Rightarrow> (unit, 'w) action" where
  "detached m = (\<lambda>w. (Inr (), snd (m w)))"

definition absent :: notificationData where
  "absent =
     \<lparr> nd_category = [], nd_dropId = None, nd_hostAddress = None, nd_creatorAddress = None,
       nd_sponsorAddress = None, nd_participantAddress = None, nd_participantName = None,
       nd_winnerAddresses = None, nd_targetFids = None, nd_rewardAmount = None,
       nd_tokenSymbol = None, nd_rewardType = None, nd_entryFee = None,
       nd_maxParticipants = None, nd_numWinners = None, nd_prizeAmounts = None,
       nd_platformFee = None, nd_transactionHash = None \<rparr>"

text \<open>The payment step of \<open>joinDrop\<close>: it yields \<open>valueToSend\<close>.\<close>

definition joinDrop_payment ::
  "remote \<Rightarrow> string \<Rightarrow> DropInfo \<Rightarrow> (int, 'z page_scheme) action" where
  "joinDrop_payment R addr d =
     (if isPaidEntry d \<and> (rewardType d = ERC20 \<or> rewardType d = USDC) then
        (if rawEntryFee d = 0
         then throw (newError ''Entry fee cannot be zero for a paid drop.'')
         else
           andThen (ERC20_balanceOf R (rewardToken d) addr) (\<lambda>balance.
           if balance < rawEntryFee d
           then throw (newError (''Insufficient '' @ part (split CHR '' '' (entryFee d)) 1
                                 @ '' balance to join.''))
           else
             andThen (toast (ToastInfo (''Approving '' @ entryFee d
                                        @ '' for FireballDrop contract...''))) (\<lambda>_.
             andThen (writeContract R (rewardToken d) ''approve''
                        [AStr (contractAddress R), AInt (rawEntryFee d)] 0) (\<lambda>approveTx.
             andThen (waitForTransactionReceipt R approveTx) (\<lambda>_.
             andThen (toast (ToastSuccess ''Approval successful! Joining drop...'')) (\<lambda>_.
             succeed 0))))))
      else if isPaidEntry d \<and> rewardType d = ETH then
        (if rawEntryFee d = 0
         then throw (newError ''Entry fee cannot be zero for a paid ETH drop.'')
         else
           andThen (getBalance R addr) (\<lambda>ethBalance.
           if ethBalance < rawEntryFee d
           then throw (newError ''Insufficient ETH balance to join.'')
           else succeed (rawEntryFee d)))
      else succeed 0)"

text \<open>
  \<open>joinDrop\<close>. The guards up to the host check run before the \<open>try\<close>, so an exception of
  theirs leaves the function; inside the \<open>try\<close> every exception ends in the \<open>catch\<close>.
\<close>

definition joinDrop :: "lib \<Rightarrow> remote \<Rightarrow> hooks \<Rightarrow> (unit, 'z page_scheme) action" where
  "joinDrop L R H = (\<lambda>w.
     case (h_address H, dropInfo w, h_dropId H) of
       (Some address, Some d, Some dropId) \<Rightarrow>
         if isConnecting H \<or> isWalletClientLoading H \<or> \<not> walletClient H \<or> address = []
            \<or> dropId = []
         then toast (ToastError ''Wallet not ready or drop info missing.'') w
         else
          (andThen (lift (someE (\<lambda>p. sameAddress L (p_address p) address) (participants w)))
             (\<lambda>alreadyJoined.
           if \<not> isActive d then toast (ToastError ''This drop is no longer active.'')
           else if isCompleted d then toast (ToastError ''This drop has already ended.'')
           else if alreadyJoined
             then toast (ToastError ''You have already joined this drop.'')
           else if currentParticipants d \<ge> maxParticipants d
             then toast (ToastError ''This drop is full.'')
           else if isSponsored d \<and> sponsor d = ZERO_ADDRESS
             then toast (ToastError ''This sponsored game is not funded yet.'')
           else
             andThen (lift (if host d = [] then Inr False else sameAddress L (host d) address))
               (\<lambda>isHost.
             if isHost then toast (ToastError ''As the host, you cannot join your own drop.'')
             else
               andThen (modify (\<lambda>w. w\<lparr>actionInProgress := True, error := None\<rparr>)) (\<lambda>_.
               tryFinally
                 (tryCatch
                    (andThen (joinDrop_payment R address d) (\<lambda>valueToSend.
                     andThen (sdk_context R) (\<lambda>fcContext.
                     andThen (succeed
                        (case fcContext of
                           None \<Rightarrow> ''User-'' @ slice_last 4 address
                         | Some user \<Rightarrow>
                             orElse (fc_displayName user)
                               (orElse (fc_username user) (''User-'' @ slice_last 4 address))))
                       (\<lambda>participantName.
                     andThen (lift (BigInt L dropId)) (\<lambda>dropIdBig.
                     andThen (writeContract R (contractAddress R) ''joinDrop''
                                [AInt dropIdBig, AStr participantName] valueToSend) (\<lambda>hash.
                     andThen (waitForTransactionReceipt R hash) (\<lambda>_.
                     andThen (tryCatch
                                (andThen (postSendNotification R
                                            (absent\<lparr> nd_category := ''game-joined'',
                                               nd_dropId := Some dropId,
                                               nd_participantAddress := Some address,
                                               nd_participantName := Some participantName,
                                               nd_entryFee := Some (entryFee d),
                                               nd_rewardType := Some (rewardType d),
                                               nd_transactionHash := Some hash \<rparr>))
                                   (\<lambda>response.
                                      if \<not> ok response
                                      then andThen (lift (json response))
                                             (\<lambda>_. succeed ())
                                      else succeed ()))
                                (\<lambda>notificationError. succeed ())) (\<lambda>_.
                     andThen (toast (ToastSuccess (''Joined Drop #'' @ dropId
                                                   @ '' successfully!''))) (\<lambda>_.
                     detached (fetchAndSetDropInfo L R dropId False))))))))))
                    (\<lambda>err.
                       andThen (modify (\<lambda>w. w\<lparr>error :=
                                  Some (errorMessageOf err ''Failed to join drop'')\<rparr>)) (\<lambda>_.
                       toast (ToastError (errorMessageOf err ''Failed to join drop'')))))
                 (\<lambda>w. w\<lparr>actionInProgress := False\<rparr>)))) w)
     | _ \<Rightarrow> toast (ToastError ''Wallet not ready or drop info missing.'') w)"

text \<open>
  The loop of \<open>selectWinnersManually\<close> over the logs of the receipt: the winners of the
  first log of the contract that decodes to \<open>WinnersSelected\<close> for this drop.
\<close>

fun parseWinnersSelected :: "lib \<Rightarrow> string \<Rightarrow> string \<Rightarrow> log list \<Rightarrow> string list" where
  "parseWinnersSelected L contract dropId [] = []"
| "parseWinnersSelected L contract dropId (l # logs) =
     (if toLowerCase L (log_address l) \<noteq> toLowerCase L contract
      then parseWinnersSelected L contract dropId logs
      else (case decoded l of
              Inr (WinnersSelected n ws prizes fee) \<Rightarrow>
                if bigint_toString n = dropId then ws
                else parseWinnersSelected L contract dropId logs
            | _ \<Rightarrow> parseWinnersSelected L contract dropId logs))"

definition selectWinnersManually ::
  "lib \<Rightarrow> remote \<Rightarrow> hooks \<Rightarrow> (int list, 'z page_scheme) action" where
  "selectWinnersManually L R H = (\<lambda>w.
     case (h_address H, dropInfo w, h_dropId H) of
       (Some address, Some d, Some dropId) \<Rightarrow>
         if isConnecting H \<or> isWalletClientLoading H \<or> \<not> walletClient H \<or> address = []
            \<or> dropId = []
         then andThen (toast (ToastError ''Wallet not ready or drop info missing.''))
                (\<lambda>_. succeed []) w
         else
          (andThen (modify (\<lambda>w. w\<lparr>actionInProgress := True, error := None\<rparr>)) (\<lambda>_.
           tryFinally
             (tryCatch
                (if currentParticipants d < int (numWinners d)
                 then throw (newError ''Not enough participants.'')
                 else if \<not> isActive d then throw (newError ''Drop is not active.'')
                 else if isCompleted d then throw (newError ''Drop is already completed.'')
                 else
                   andThen (lift (BigInt L dropId)) (\<lambda>dropIdBig.
                   andThen (writeContract R (contractAddress R) ''selectWinnersManually''
                              [AInt dropIdBig] 0) (\<lambda>hash.
                   andThen (toast (ToastInfo ''Selecting winners... please wait.'')) (\<lambda>_.
                   andThen (waitForTransactionReceipt R hash) (\<lambda>logs.
                   andThen (if length (parseWinnersSelected L (contractAddress R) dropId logs) = 0
                            then andThen (getDropInfo R dropIdBig)
                                   (\<lambda>latestDropInfo. succeed (dd_winnersAddresses latestDropInfo))
                            else succeed (parseWinnersSelected L (contractAddress R) dropId logs))
                     (\<lambda>newWinnerAddresses.
                   andThen (getDropParticipants R dropIdBig) (\<lambda>(addrs, names).
                   andThen (lift (winnerIndexList L newWinnerAddresses addrs)) (\<lambda>indices.
                   andThen (modify (\<lambda>w. w\<lparr>dropInfo :=
                              (case dropInfo w of
                                 Some prev \<Rightarrow> Some (prev\<lparr>winners := newWinnerAddresses,
                                                        isCompleted := True,
                                                        isActive := False\<rparr>)
                               | None \<Rightarrow> None),
                              winnerIndices := indices,
                              animateWinners := True\<rparr>)) (\<lambda>_.
                   succeed indices)))))))))
                (\<lambda>err.
                   andThen (modify (\<lambda>w. w\<lparr>error :=
                              Some (errorMessageOf err ''Failed to select winners'')\<rparr>)) (\<lambda>_.
                   andThen (toast (ToastError (errorMessageOf err ''Failed to select winners'')))
                     (\<lambda>_. throw err))))
             (\<lambda>w. w\<lparr>actionInProgress := False\<rparr>)) w)
     | _ \<Rightarrow> andThen (toast (ToastError ''Wallet not ready or drop info missing.''))
             (\<lambda>_. succeed []) w)"

section \<open>The notification endpoint\<close>

text \<open>The environment variables the serverless functions read.\<close>

record env =
  NEYNAR_API_KEY :: "string option"
  CONTRACT_ADDRESS :: "string option"
  ALCHEMY_API_KEY :: "string option"
  APP_URL :: "string option"

text \<open>The module state of the endpoint: \<open>profileCache\<close>.\<close>

record server = world +
  profileCache :: "string \<rightharpoonup> profile"

text \<open>A string that may be absent is truthy when it is present and not empty.\<close>

definition truthy :: "string option \<Rightarrow> bool" where
  "truthy v = (case v of Some x \<Rightarrow> x \<noteq> [] | None \<Rightarrow> False)"

text \<open>\<open>object[key]\<close> with a key that may be \<open>undefined\<close>.\<close>

definition propertyKey :: "string option \<Rightarrow> string" where
  "propertyKey v = (case v of Some x \<Rightarrow> x | None \<Rightarrow> ''undefined'')"

text \<open>\<open>fids.filter(fid => fid)\<close>: the numbers that are present and not zero.\<close>

definition truthyFids :: "nat option list \<Rightarrow> nat list" where
  "truthyFids fids =
     List.map_filter (\<lambda>f. case f of Some n \<Rightarrow> if n \<noteq> 0 then Some n else None | None \<Rightarrow> None)
       fids"

definition fetchFrameUsersFids :: "remote \<Rightarrow> (nat list, 'z server_scheme) action" where
  "fetchFrameUsersFids R =
     tryCatch
       (andThen (request SupabaseFrameUsers (reply_frameUsers R)) (\<lambda>answer.
          case answer of
            SupabaseError \<Rightarrow> succeed []
          | SupabaseData rows \<Rightarrow> succeed (truthyFids rows)))
       (\<lambda>e. succeed [])"

definition nullProfile :: "string \<Rightarrow> profile" where
  "nullProfile addr =
     \<lparr> fid = None, username = None, displayName = None, pfpUrl = None,
       custodyAddress = addr \<rparr>"

text \<open>
  The callback over \<open>Object.entries(data)\<close>. It writes into \<open>results\<close> and the cache as
  it goes, so what it wrote before \<open>getAddress\<close> throws stays written; the flag tells
  whether it ran to the end.
\<close>

fun storeEntries ::
  "lib \<Rightarrow> (string \<times> neynarUser list) list \<Rightarrow> (string \<rightharpoonup> profile) \<Rightarrow> (string \<rightharpoonup> profile)
     \<Rightarrow> bool \<times> (string \<rightharpoonup> profile) \<times> (string \<rightharpoonup> profile)" where
  "storeEntries L [] results cache = (True, results, cache)"
| "storeEntries L ((addr, users) # entries) results cache =
     (if \<not> isAddress L addr then storeEntries L entries results cache
      else (case getAddress L addr of
              Inl e \<Rightarrow> (False, results, cache)
            | Inr normalizedAddr \<Rightarrow>
                (case users of
                   user # _ \<Rightarrow>
                     storeEntries L entries
                       (results(normalizedAddr \<mapsto>
                          \<lparr> fid = nu_fid user, username = nu_username user,
                            displayName = nu_display_name user, pfpUrl = nu_pfp_url user,
                            custodyAddress = normalizedAddr \<rparr>))
                       (cache(normalizedAddr \<mapsto>
                          \<lparr> fid = nu_fid user, username = nu_username user,
                            displayName = nu_display_name user, pfpUrl = nu_pfp_url user,
                            custodyAddress = normalizedAddr \<rparr>))
                 | [] \<Rightarrow>
                     storeEntries L entries results
                       (cache(normalizedAddr \<mapsto> nullProfile normalizedAddr)))))"

text \<open>One round of the loop over the chunks; every exception ends in its \<open>catch\<close>.\<close>

definition fetchChunk ::
  "lib \<Rightarrow> remote \<Rightarrow> string list \<Rightarrow> (string \<rightharpoonup> profile)
     \<Rightarrow> (string \<rightharpoonup> profile, 'z server_scheme) action" where
  "fetchChunk L R chunk results = (\<lambda>w.
     case request (NeynarBulkByAddress chunk) (\<lambda>h. reply_bulkByAddress R h chunk) w of
       (Inl e, w') \<Rightarrow> (Inr results, w')
     | (Inr (BulkNotOk st), w') \<Rightarrow>
         (Inr results,
          w'\<lparr>profileCache :=
               fold (\<lambda>addr cache. if cache addr = None then cache(addr \<mapsto> nullProfile addr)
                                   else cache) chunk (profileCache w')\<rparr>)
     | (Inr (BulkData (Inl e)), w') \<Rightarrow> (Inr results, w')
     | (Inr (BulkData (Inr entries)), w') \<Rightarrow>
         (case storeEntries L entries results (profileCache w') of
            (finished, results', cache') \<Rightarrow> (Inr results', w'\<lparr>profileCache := cache'\<rparr>)))"

fun fetchChunks ::
  "lib \<Rightarrow> remote \<Rightarrow> string list list \<Rightarrow> (string \<rightharpoonup> profile)
     \<Rightarrow> (string \<rightharpoonup> profile, 'z server_scheme) action" where
  "fetchChunks L R [] results = succeed results"
| "fetchChunks L R (chunk # chunks) results =
     (\<lambda>w. case fetchChunk L R chunk results w of
             (Inl e, w') \<Rightarrow> (Inl e, w')
           | (Inr results', w') \<Rightarrow> fetchChunks L R chunks results' w')"

text \<open>The slices \<open>addressesToFetch.slice(i, i + CHUNK_SIZE)\<close> for \<open>i = 0, 50, 100, ...\<close>\<close>

function chunksOf :: "nat \<Rightarrow> 'a list \<Rightarrow> 'a list list" where
  "chunksOf n xs = (if n = 0 \<or> xs = [] then [] else take n xs # chunksOf n (drop n xs))"
  by pat_completeness auto
termination
  by (relation "measure (\<lambda>(n, xs). length xs)") auto

declare chunksOf.simps [simp del]

definition fetchFarcasterProfiles ::
  "lib \<Rightarrow> env \<Rightarrow> remote \<Rightarrow> string list \<Rightarrow> (string \<rightharpoonup> profile, 'z server_scheme) action" where
  "fetchFarcasterProfiles L E R addresses =
     (if addresses = [] then succeed Map.empty
      else if \<not> truthy (NEYNAR_API_KEY E) then succeed Map.empty
      else
        andThen (lift (mapE (getAddress L) addresses)) (\<lambda>normalized. (\<lambda>w.
          fetchChunks L R
            (chunksOf 50 (filter (\<lambda>addr. profileCache w addr = None) (fold setAdd normalized [])))
            (fold (\<lambda>addr results. if profileCache w addr \<noteq> None
                                   then results(addr := profileCache w addr) else results)
               (fold setAdd normalized []) Map.empty)
            w)))"

definition getDisplayName :: "profile option \<Rightarrow> string \<Rightarrow> string" where
  "getDisplayName p addr =
     (case p of
        Some pr \<Rightarrow>
          if truthy (displayName pr) \<or> truthy (username pr)
          then orElse (displayName pr) (orElse (username pr) [])
          else if length addr \<ge> 10 then take 6 addr @ ''...'' @ slice_last 4 addr
          else ''unknown address''
      | None \<Rightarrow>
          if length addr \<ge> 10 then take 6 addr @ ''...'' @ slice_last 4 addr
          else ''unknown address'')"

text \<open>\<open>sendNeynarNotification\<close>; the random \<open>uuid\<close> of the body is left out.\<close>

definition sendNeynarNotification ::
  "env \<Rightarrow> remote \<Rightarrow> nat list \<Rightarrow> notification \<Rightarrow> (sendResult, 'z server_scheme) action" where
  "sendNeynarNotification E R targetFids n =
     (if \<not> truthy (NEYNAR_API_KEY E) then throw (newError ''Neynar API key missing'')
      else if targetFids = []
        then succeed \<lparr>success = False, r_message = ''No target FIDs provided''\<rparr>
      else
        tryCatch
          (andThen (request (NeynarNotifications targetFids n)
                      (\<lambda>h. reply_notifications R h targetFids n)) (\<lambda>response.
           andThen (lift (json response)) (\<lambda>data.
           if \<not> ok response
           then throw (newError (''Neynar API error: '' @ number_toString (status response)))
           else succeed \<lparr>success = True, r_message = ''Notification sent''\<rparr>)))
          (\<lambda>err. succeed \<lparr>success = False,
                           r_message = ''Failed to send: '' @ message err\<rparr>))"

text \<open>
  \<open>handleNotificationLogic\<close>, in the three steps of its \<open>try\<close>: the host defaults to the
  creator, the profiles of the addresses named are looked up, and the category decides
  audience and text. The titles are given without the emoji that ends them.
\<close>

definition withHostAddress :: "notificationData \<Rightarrow> notificationData" where
  "withHostAddress d =
     (if truthy (nd_creatorAddress d) \<and> \<not> truthy (nd_hostAddress d)
      then d\<lparr>nd_hostAddress := nd_creatorAddress d\<rparr> else d)"

definition pushIfAddress :: "lib \<Rightarrow> string option \<Rightarrow> string list \<Rightarrow> error + string list" where
  "pushIfAddress L v acc =
     (case v of
        Some a \<Rightarrow>
          if a \<noteq> [] \<and> isAddress L a
          then (case getAddress L a of Inl e \<Rightarrow> Inl e | Inr x \<Rightarrow> Inr (acc @ [x]))
          else Inr acc
      | None \<Rightarrow> Inr acc)"

definition addressesToFetchOf :: "lib \<Rightarrow> notificationData \<Rightarrow> error + string list" where
  "addressesToFetchOf L d =
     (case pushIfAddress L (nd_hostAddress d) [] of
        Inl e \<Rightarrow> Inl e
      | Inr a1 \<Rightarrow>
     (case pushIfAddress L (nd_sponsorAddress d) a1 of
        Inl e \<Rightarrow> Inl e
      | Inr a2 \<Rightarrow>
     (case pushIfAddress L (nd_participantAddress d) a2 of
        Inl e \<Rightarrow> Inl e
      | Inr a3 \<Rightarrow>
     (case nd_winnerAddresses d of
        None \<Rightarrow> Inr a3
      | Some ws \<Rightarrow>
          (case mapE (getAddress L) (filter (isAddress L) ws) of
             Inl e \<Rightarrow> Inl e
           | Inr xs \<Rightarrow> Inr (a3 @ xs))))))"

definition lookupProfiles ::
  "lib \<Rightarrow> env \<Rightarrow> remote \<Rightarrow> notificationData
     \<Rightarrow> (string \<rightharpoonup> profile, 'z server_scheme) action" where
  "lookupProfiles L E R d =
     andThen (lift (addressesToFetchOf L d)) (fetchFarcasterProfiles L E R)"

definition dropUrl :: "notificationData \<Rightarrow> string" where
  "dropUrl d =
     (if truthy (nd_dropId d) then ''https://fireball-rho.vercel.app/drop/'' @ propertyKey (nd_dropId d)
      else ''https://fireball-rho.vercel.app'')"

definition rewardDisplay :: "notificationData \<Rightarrow> string" where
  "rewardDisplay d =
     (if truthy (nd_tokenSymbol d)
      then orElse (nd_rewardAmount d) ''N/A'' @ '' '' @ propertyKey (nd_tokenSymbol d)
      else orElse (nd_rewardAmount d) ''N/A'')"

text \<open>\<open>profiles[key]?.fid ? [profiles[key].fid] : []\<close>\<close>

definition fidOf :: "(string \<rightharpoonup> profile) \<Rightarrow> string \<Rightarrow> nat list" where
  "fidOf profiles key =
     truthyFids [case profiles key of Some p \<Rightarrow> fid p | None \<Rightarrow> None]"

fun joinWith :: "string \<Rightarrow> string list \<Rightarrow> string" where
  "joinWith sep [] = []"
| "joinWith sep [x] = x"
| "joinWith sep (x # y # ys) = x @ sep @ joinWith sep (y # ys)"

definition dispatch ::
  "lib \<Rightarrow> env \<Rightarrow> remote \<Rightarrow> notificationData \<Rightarrow> (string \<rightharpoonup> profile)
     \<Rightarrow> (sendResult, 'z server_scheme) action" where
  "dispatch L E R d profiles =
     (if nd_category d = ''welcome'' then
        (case nd_targetFids d of
           Some (f # fs) \<Rightarrow>
             sendNeynarNotification E R (f # fs)
               \<lparr> title = ''Welcome to Fireball! '',
                 body = ''Join exciting drops and win rewards!'',
                 target_url = dropUrl d \<rparr>
         | _ \<Rightarrow> throw (newError ''Valid targetFids required''))
      else if nd_category d = ''game-created'' then
        (if \<not> truthy (nd_hostAddress d) \<or> \<not> isAddress L (propertyKey (nd_hostAddress d))
         then throw (newError ''Valid hostAddress required'')
         else
           andThen (fetchFrameUsersFids R) (\<lambda>targetFids.
           sendNeynarNotification E R targetFids
             \<lparr> title = ''New Fireball Drop Created! '',
               body = ''Drop #'' @ propertyKey (nd_dropId d) @ '' by ''
                      @ getDisplayName (profiles (propertyKey (nd_hostAddress d)))
                          (propertyKey (nd_hostAddress d))
                      @ '': '' @ rewardDisplay d @ '' prize for up to ''
                      @ (case nd_maxParticipants d of
                           Some m \<Rightarrow> if m \<noteq> 0 then bigint_toString m else ''N/A''
                         | None \<Rightarrow> ''N/A'')
                      @ '' participants!'',
               target_url = dropUrl d \<rparr>))
      else if nd_category d = ''game-sponsored'' then
        (if nd_hostAddress d = None \<or> \<not> isAddress L (propertyKey (nd_hostAddress d))
            \<or> nd_sponsorAddress d = None \<or> \<not> isAddress L (propertyKey (nd_sponsorAddress d))
         then throw (newError ''Valid host and sponsor addresses required'')
         else
           andThen (fetchFrameUsersFids R) (\<lambda>targetFids.
           sendNeynarNotification E R targetFids
             \<lparr> title = ''Drop Sponsored! '',
               body = ''Drop #'' @ propertyKey (nd_dropId d) @ '' sponsored by ''
                      @ getDisplayName (profiles (propertyKey (nd_sponsorAddress d)))
                          (propertyKey (nd_sponsorAddress d))
                      @ '' for ''
                      @ getDisplayName (profiles (propertyKey (nd_hostAddress d)))
                          (propertyKey (nd_hostAddress d))
                      @ ''. Prize: '' @ rewardDisplay d @ ''.'',
               target_url = dropUrl d \<rparr>))
      else if nd_category d = ''game-joined'' then
        (if nd_participantAddress d = None
            \<or> \<not> isAddress L (propertyKey (nd_participantAddress d))
         then throw (newError ''Valid participant address required'')
         else
           sendNeynarNotification E R
             (fidOf profiles (propertyKey (nd_hostAddress d))
              @ fidOf profiles (propertyKey (nd_participantAddress d)))
             \<lparr> title = ''New Participant! '',
               body = orElse (nd_participantName d)
                        (getDisplayName (profiles (propertyKey (nd_participantAddress d)))
                           (propertyKey (nd_participantAddress d)))
                      @ '' joined Drop #'' @ propertyKey (nd_dropId d) @ ''! Prize: ''
                      @ rewardDisplay d @ ''.'',
               target_url = dropUrl d \<rparr>)
      else if nd_category d = ''winners-selected'' then
        (case nd_winnerAddresses d of
           None \<Rightarrow> throw (newError ''Valid winner addresses required'')
         | Some ws \<Rightarrow>
             if \<exists>addr \<in> set ws. \<not> isAddress L addr
             then throw (newError ''Valid winner addresses required'')
             else
               andThen (lift (mapE (\<lambda>addr. case getAddress L addr of
                                              Inl e \<Rightarrow> Inl e
                                            | Inr x \<Rightarrow> Inr (case profiles x of
                                                              Some p \<Rightarrow> fid p
                                                            | None \<Rightarrow> None)) ws))
                 (\<lambda>fids.
               if truthyFids fids = []
               then succeed \<lparr>success = False, r_message = ''No valid FIDs for winners''\<rparr>
               else
                 andThen (lift (mapE (\<lambda>addr. case getAddress L addr of
                                                Inl e \<Rightarrow> Inl e
                                              | Inr x \<Rightarrow> Inr (getDisplayName (profiles x) addr))
                                  ws)) (\<lambda>winnerDisplays.
                 sendNeynarNotification E R (truthyFids fids)
                   \<lparr> title = ''Winners Announced! '',
                     body = ''Drop #'' @ propertyKey (nd_dropId d) @ '' winners: ''
                            @ joinWith '', '' winnerDisplays @ ''. Prize: ''
                            @ rewardDisplay d @ ''.'',
                     target_url = dropUrl d \<rparr>)))
      else throw (newError (''Unsupported category: '' @ nd_category d)))"

definition handleNotificationLogic ::
  "lib \<Rightarrow> env \<Rightarrow> remote \<Rightarrow> notificationData \<Rightarrow> (sendResult, 'z server_scheme) action" where
  "handleNotificationLogic L E R notificationData =
     tryCatch
       (if nd_category (withHostAddress notificationData)
             \<in> set [''game-created'', ''game-sponsored'', ''game-joined'', ''winners-selected'']
           \<and> \<not> truthy (nd_dropId (withHostAddress notificationData))
        then throw (newError ''dropId required'')
        else
          andThen (lookupProfiles L E R (withHostAddress notificationData)) (\<lambda>profiles.
          dispatch L E R (withHostAddress notificationData) profiles))
       (\<lambda>err. succeed \<lparr>success = False, r_message = ''Failed to send: '' @ message err\<rparr>)"

section \<open>The frame handler\<close>

text \<open>\<open>req.query.dropId\<close>: absent, a string, or an array of strings.\<close>

datatype queryValue = QUndefined | QString string | QArray "string list"

record httpReply =
  r_status :: nat
  r_contentType :: "string option"
  r_body :: string

text \<open>
  The module variables of the handler (unset, or loaded with or without the export it
  uses) and the response sent, if any.
\<close>

record frame = world +
  FIREBALL_DROP_ABI_MODULE :: "bool option"
  ERC20_MINIMAL_ABI_MODULE :: "bool option"
  REWARD_TYPE_MODULE :: "bool option"
  response :: "httpReply option"

text \<open>The test \<open>/^\d+$/\<close>: a non-empty string of decimal digits.\<close>

definition isDigits :: "string \<Rightarrow> bool" where
  "isDigits s = (s \<noteq> [] \<and> list_all (\<lambda>c. c \<in> set ''0123456789'') s)"

definition importModule :: "remote \<Rightarrow> string \<Rightarrow> (bool, 'z world_scheme) action" where
  "importModule R m = request (ImportModule m) (\<lambda>h. reply_import R h m)"

definition ensureModulesLoaded :: "remote \<Rightarrow> (unit, 'z frame_scheme) action" where
  "ensureModulesLoaded R =
     andThen (\<lambda>w. if FIREBALL_DROP_ABI_MODULE w = None
                   then andThen (importModule R ''../src/utils/cjs/FireballDropAbi.cjs'')
                          (\<lambda>m. modify (\<lambda>w. w\<lparr>FIREBALL_DROP_ABI_MODULE := Some m\<rparr>)) w
                   else succeed () w) (\<lambda>_.
     andThen (\<lambda>w. if ERC20_MINIMAL_ABI_MODULE w = None
                   then andThen (importModule R ''../src/utils/cjs/erc20.cjs'')
                          (\<lambda>m. modify (\<lambda>w. w\<lparr>ERC20_MINIMAL_ABI_MODULE := Some m\<rparr>)) w
                   else succeed () w) (\<lambda>_.
     (\<lambda>w. if REWARD_TYPE_MODULE w = None
           then andThen (importModule R ''../src/types/cjs/global.cjs'')
                  (\<lambda>m. modify (\<lambda>w. w\<lparr>REWARD_TYPE_MODULE := Some m\<rparr>)) w
           else succeed () w)))"

text \<open>\<open>getServerConfig\<close>: it yields the contract address to read from.\<close>

definition getServerConfig :: "env \<Rightarrow> (string, 'z frame_scheme) action" where
  "getServerConfig E = (\<lambda>w.
     if \<not> truthy (CONTRACT_ADDRESS E)
     then throw (newError ''CONTRACT_ADDRESS environment variable is not set for server.'') w
     else if \<not> truthy (ALCHEMY_API_KEY E)
     then throw (newError ''ALCHEMY_API_KEY environment variable is not set for server.'') w
     else if FIREBALL_DROP_ABI_MODULE w \<noteq> Some True
     then throw (newError
            ''FIREBALL_DROP_ABI has not been loaded. Call ensureModulesLoaded first.'') w
     else succeed (propertyKey (CONTRACT_ADDRESS E)) w)"

definition getTokenDecimalsServer ::
  "env \<Rightarrow> remote \<Rightarrow> string \<Rightarrow> (nat, 'z frame_scheme) action" where
  "getTokenDecimalsServer E R tokenAddress = (\<lambda>w.
     if tokenAddress = ZERO_ADDRESS then succeed 18 w
     else if ERC20_MINIMAL_ABI_MODULE w \<noteq> Some True
     then throw (newError
            ''ERC20_MINIMAL_ABI has not been loaded. Call ensureModulesLoaded first.'') w
     else andThen (getServerConfig E) (\<lambda>config.
          tryCatch (ERC20_decimals R tokenAddress) (\<lambda>e. succeed 18)) w)"

definition formatRewardDisplayServer ::
  "lib \<Rightarrow> env \<Rightarrow> remote \<Rightarrow> int \<Rightarrow> RewardType \<Rightarrow> string \<Rightarrow> nat \<Rightarrow> string list
     \<Rightarrow> (string, 'z frame_scheme) action" where
  "formatRewardDisplayServer L E R rawAmount currentRewardType rewardTokenAddress numWinners'
       rewardTokenIds' = (\<lambda>w.
     if REWARD_TYPE_MODULE w \<noteq> Some True
     then throw (newError ''RewardType has not been loaded. Call ensureModulesLoaded first.'') w
     else if currentRewardType = ETH then succeed (formatEther L rawAmount @ '' ETH'') w
     else if currentRewardType = USDC \<or> currentRewardType = ERC20 then
       andThen (getTokenDecimalsServer E R rewardTokenAddress) (\<lambda>decimals.
       andThen (getServerConfig E) (\<lambda>config.
       andThen (tryCatch
                  (andThen (ERC20_symbol R rewardTokenAddress) (\<lambda>symbol.
                     succeed (if toUpperCase L symbol = ''FIREBALL'' then ''fire-ball''
                              else symbol)))
                  (\<lambda>e. succeed ''Tokens'')) (\<lambda>symbol.
       succeed (formatUnits L rawAmount decimals @ '' '' @ symbol)))) w
     else if currentRewardType = NFT then
       succeed (number_toString
                  (if length rewardTokenIds' > 0 then length rewardTokenIds' else numWinners')
                @ '' NFT(s)'') w
     else succeed ''N/A'' w)"

text \<open>\<open>getMinimalDropDataForFrame\<close>: the formatted reward, or \<open>null\<close> on any exception.\<close>

definition getMinimalDropDataForFrame ::
  "lib \<Rightarrow> env \<Rightarrow> remote \<Rightarrow> string \<Rightarrow> (string option, 'z frame_scheme) action" where
  "getMinimalDropDataForFrame L E R dropIdStr =
     tryCatch
       (andThen (getServerConfig E) (\<lambda>contractAddress'.
        andThen (lift (BigInt L dropIdStr)) (\<lambda>dropIdBig.
        andThen (request (ReadContract contractAddress' ''getDropInfo'' [AInt dropIdBig])
                   (\<lambda>h. reply_getDropInfo R h dropIdBig)) (\<lambda>t.
        andThen (formatRewardDisplayServer L E R (dd_rawRewardAmountFromContract t)
                   (dd_rewardTypeNum t) (dd_rewardToken t) (dd_numWinners t)
                   (map bigint_toString (dd_rewardTokenIdsBigInt t))) (\<lambda>rewardAmountFormatted.
        succeed (Some rewardAmountFormatted))))))
       (\<lambda>e. succeed None)"

definition readIndexHtml :: "remote \<Rightarrow> (string, 'z world_scheme) action" where
  "readIndexHtml R = request ReadIndexHtml (reply_readIndexHtml R)"

definition send :: "nat \<Rightarrow> string option \<Rightarrow> string \<Rightarrow> (unit, 'z frame_scheme) action" where
  "send st contentType text =
     modify (\<lambda>w. w\<lparr>response := Some \<lparr>r_status = st, r_contentType = contentType,
                                      r_body = text\<rparr>\<rparr>)"

definition serveOriginalIndex :: "remote \<Rightarrow> (unit, 'z frame_scheme) action" where
  "serveOriginalIndex R =
     tryCatch
       (andThen (readIndexHtml R) (\<lambda>fallbackHtml. send 200 (Some ''text/html'') fallbackHtml))
       (\<lambda>fallbackError.
          send 500 None (''Critical error serving fallback: '' @ message fallbackError))"

definition handler :: "lib \<Rightarrow> env \<Rightarrow> remote \<Rightarrow> queryValue \<Rightarrow> (unit, 'z frame_scheme) action" where
  "handler L E R query =
     andThen (ensureModulesLoaded R) (\<lambda>_.
     case query of
       QString dropId \<Rightarrow>
         if \<not> isDigits dropId then serveOriginalIndex R
         else
           tryCatch
             (andThen (getMinimalDropDataForFrame L E R dropId) (\<lambda>dropData.
              andThen (readIndexHtml R) (\<lambda>html.
              send 200 (Some ''text/html'')
                (injectFrameMeta L (orElse (APP_URL E) ''https://fireball-rho.vercel.app'')
                   dropId
                   (case dropData of
                      Some rewardAmountFormatted \<Rightarrow> rewardAmountFormatted
                    | None \<Rightarrow> ''an exciting prize'')
                   html))))
             (\<lambda>err. serveOriginalIndex R)
     | _ \<Rightarrow> serveOriginalIndex R)"

section \<open>CreateDropPage: validation and submission\<close>

definition USDC_BASE_ADDRESS :: string where
  "USDC_BASE_ADDRESS = ''0x833589fCD6eDb6E08f4c7C32D4f71b54bdA02913''"

definition MAX_PARTICIPANTS_LIMIT :: int where
  "MAX_PARTICIPANTS_LIMIT = 100"

definition MAX_WINNERS_LIMIT :: int where
  "MAX_WINNERS_LIMIT = 3"

datatype fundingType = HostFunded | ParticipantPaid

datatype selectionType = Manual | Automatic

text \<open>
  The \<open>useState\<close> cells of the form. \<open>numWinners\<close> is a number that is only ever set to
  \<open>parseInt\<close> of an option of the select (1, 2 or 3), to 1 or to \<open>Math.max(1, n - 1)\<close> for
  an integer \<open>n\<close>: an integer.
\<close>

record createPage = ui +
  fundingType :: fundingType
  isSponsoredGame :: bool
  selectedRewardType :: RewardType
  entryFeeString :: string
  rewardAmountString :: string
  rewardTokenAddress :: string
  rewardTokenIdsString :: string
  fetchedTokenName :: string
  fetchedTokenSymbol :: string
  form_maxParticipants :: string
  form_numWinners :: int
  selectionType :: selectionType
  isSubmitting :: bool
  errorMessage :: "string option"

text \<open>\<open>setErrorMessage(msg); return false\<close>\<close>

definition invalid :: "string \<Rightarrow> (bool, 'z createPage_scheme) action" where
  "invalid msg = (\<lambda>w. (Inr False, w\<lparr>errorMessage := Some msg\<rparr>))"

text \<open>The check of an amount: \<open>!s || parseFloat(s) <= 0\<close>\<close>

definition notPositive :: "lib \<Rightarrow> string \<Rightarrow> bool" where
  "notPositive L s = (s = [] \<or> parseFloat_le_0 L s)"

text \<open>
  The checks of \<open>validateInputs\<close> after the two on the counts; \<open>participants'\<close> is the
  number parsed.
\<close>

definition validateRewards :: "lib \<Rightarrow> int \<Rightarrow> (bool, 'z createPage_scheme) action" where
  "validateRewards L participants' = (\<lambda>w.
     andThen
       (if selectedRewardType w = NFT then
          (if fundingType w = ParticipantPaid then invalid ''NFT drops must be Host-Funded.''
           else if rewardTokenAddress w = [] \<or> \<not> isAddress L (rewardTokenAddress w)
             then invalid ''Valid NFT Contract Address required.''
           else if int (length (filter (\<lambda>tokenId. tokenId \<noteq> [])
                                   (map (trim L) (split CHR '','' (rewardTokenIdsString w)))))
                   \<noteq> form_numWinners w
             then invalid (''Provide exactly '' @ bigint_toString (form_numWinners w)
                           @ '' NFT Token ID(s).'')
           else if list_ex (\<lambda>tokenId. case parseInt L tokenId of
                                          None \<Rightarrow> True | Some n \<Rightarrow> n < 0)
                     (filter (\<lambda>tokenId. tokenId \<noteq> [])
                        (map (trim L) (split CHR '','' (rewardTokenIdsString w))))
             then invalid ''NFT Token IDs must be valid non-negative numbers.''
           else succeed True)
        else if selectedRewardType w = USDC then
          andThen (lift (getAddress L (rewardTokenAddress w))) (\<lambda>token.
          andThen (lift (getAddress L USDC_BASE_ADDRESS)) (\<lambda>usdc.
          if token \<noteq> usdc then invalid ''USDC token address is fixed.''
          else if fundingType w = ParticipantPaid then
            (if notPositive L (entryFeeString w) then invalid ''Entry fee (USDC) must be > 0.''
             else succeed True)
          else
            (if notPositive L (rewardAmountString w)
             then invalid ''Reward amount (USDC) must be > 0.'' else succeed True)))
        else if selectedRewardType w = ERC20 then
          (if rewardTokenAddress w = [] \<or> \<not> isAddress L (rewardTokenAddress w)
             then invalid ''Valid Token Contract Address required.''
           else if fundingType w = ParticipantPaid then
             (if notPositive L (entryFeeString w)
              then invalid ''Entry fee (tokens) must be > 0.'' else succeed True)
           else
             (if notPositive L (rewardAmountString w)
              then invalid ''Reward amount (tokens) must be > 0.'' else succeed True))
        else if selectedRewardType w = ETH then
          (if fundingType w = ParticipantPaid then
             (if notPositive L (entryFeeString w)
              then invalid ''Entry fee (ETH) must be > 0.'' else succeed True)
           else
             (if notPositive L (rewardAmountString w)
              then invalid ''Reward amount (ETH) must be > 0.'' else succeed True))
        else succeed True)
       (\<lambda>passed.
          if \<not> passed then succeed False
          else if fundingType w = ParticipantPaid \<and> selectedRewardType w \<noteq> NFT \<and>
                  (rewardAmountString w = []
                   \<or> rewardMismatch L (rewardAmountString w) (entryFeeString w) participants'
                   \<or> parseFloat_le_0 L (rewardAmountString w))
            then invalid ''Reward amount must match Entry Fee * Max Participants.''
          else succeed True) w)"

definition validateInputs :: "lib \<Rightarrow> (bool, 'z createPage_scheme) action" where
  "validateInputs L =
     andThen (modify (\<lambda>w. w\<lparr>errorMessage := None\<rparr>)) (\<lambda>_. (\<lambda>w.
       case parseInt L (form_maxParticipants w) of
         None \<Rightarrow>
           invalid (''Max participants must be between 1 and ''
                    @ bigint_toString MAX_PARTICIPANTS_LIMIT @ ''.'') w
       | Some participants' \<Rightarrow>
           if participants' \<le> 0 \<or> participants' > MAX_PARTICIPANTS_LIMIT
           then invalid (''Max participants must be between 1 and ''
                         @ bigint_toString MAX_PARTICIPANTS_LIMIT @ ''.'') w
           else if form_numWinners w \<le> 0 \<or> form_numWinners w > MAX_WINNERS_LIMIT
                   \<or> form_numWinners w \<ge> participants'
           then invalid (''Number of winners must be between 1 and ''
                         @ bigint_toString (min (participants' - 1) MAX_WINNERS_LIMIT)
                         @ ''.'') w
           else validateRewards L participants' w))"

text \<open>
  The loop of \<open>handleSubmit\<close> over the logs of the receipt: the id of the first log of
  the contract that decodes to \<open>DropCreated\<close> with a \<open>bigint\<close> id, else \<open>0\<close>.
\<close>

fun parseDropCreated :: "lib \<Rightarrow> string \<Rightarrow> log list \<Rightarrow> string" where
  "parseDropCreated L contract [] = ''0''"
| "parseDropCreated L contract (l # logs) =
     (if toLowerCase L (log_address l) \<noteq> toLowerCase L contract
      then parseDropCreated L contract logs
      else (case decoded l of
              Inr (DropCreated (Some n)) \<Rightarrow> bigint_toString n
            | _ \<Rightarrow> parseDropCreated L contract logs))"

text \<open>The loop that approves the NFTs one by one.\<close>

fun approveNfts :: "remote \<Rightarrow> string \<Rightarrow> int list \<Rightarrow> (unit, 'z createPage_scheme) action" where
  "approveNfts R token [] = succeed ()"
| "approveNfts R token (tokenId # tokenIds) =
     andThen (toast (ToastInfo (''Approving NFT ID: '' @ bigint_toString tokenId @ ''...''))) (\<lambda>_.
     andThen (writeContract R token ''approve'' [AStr (contractAddress R), AInt tokenId] 0)
       (\<lambda>approveNftHash.
     andThen (waitForTransactionReceipt R approveNftHash) (\<lambda>_.
     andThen (toast (ToastSuccess (''NFT ID: '' @ bigint_toString tokenId @ '' approved!'')))
       (\<lambda>_. approveNfts R token tokenIds))))"

text \<open>
  The amounts of \<open>handleSubmit\<close> with the approvals a host-funded drop needs: the token
  ids, the entry fee, the reward amount and the value to send. \<open>c\<close> is the form as the
  handler captured it.
\<close>

definition prepareFunding ::
  "lib \<Rightarrow> remote \<Rightarrow> 'z createPage_scheme \<Rightarrow> string
     \<Rightarrow> (int list \<times> int \<times> int \<times> int, 'z createPage_scheme) action" where
  "prepareFunding L R c effectiveRewardTokenAddr =
     (if selectedRewardType c = ETH then
        andThen (lift (if fundingType c = ParticipantPaid then parseEther L (entryFeeString c)
                       else Inr 0)) (\<lambda>finalEntryFeeBigInt.
        andThen (lift (parseEther L (rewardAmountString c))) (\<lambda>finalRewardAmountBigInt.
        succeed ([], finalEntryFeeBigInt, finalRewardAmountBigInt,
                 if fundingType c = HostFunded \<and> \<not> isSponsoredGame c
                 then finalRewardAmountBigInt else 0)))
      else if selectedRewardType c = USDC \<or> selectedRewardType c = ERC20 then
        andThen (getTokenDecimals R effectiveRewardTokenAddr) (\<lambda>decimals.
        andThen (lift (if fundingType c = ParticipantPaid
                       then parseUnits L (entryFeeString c) decimals else Inr 0))
          (\<lambda>finalEntryFeeBigInt.
        andThen (lift (parseUnits L (rewardAmountString c) decimals)) (\<lambda>finalRewardAmountBigInt.
        andThen (if fundingType c = HostFunded \<and> \<not> isSponsoredGame c then
                   andThen (toast (ToastInfo (''Approving '' @ rewardAmountString c @ '' ''
                              @ (if fetchedTokenSymbol c \<noteq> [] then fetchedTokenSymbol c
                                 else ''tokens'') @ ''...''))) (\<lambda>_.
                   andThen (writeContract R effectiveRewardTokenAddr ''approve''
                              [AStr (contractAddress R), AInt finalRewardAmountBigInt] 0)
                     (\<lambda>approveHash.
                   andThen (waitForTransactionReceipt R approveHash) (\<lambda>_.
                   toast (ToastSuccess ''Token approval successful!''))))
                 else succeed ()) (\<lambda>_.
        succeed ([], finalEntryFeeBigInt, finalRewardAmountBigInt, 0)))))
      else if selectedRewardType c = NFT then
        andThen (lift (mapE (\<lambda>tokenId. BigInt L (trim L tokenId))
                         (split CHR '','' (rewardTokenIdsString c)))) (\<lambda>finalRewardTokenIds.
        andThen (if fundingType c = HostFunded \<and> \<not> isSponsoredGame c
                 then approveNfts R effectiveRewardTokenAddr finalRewardTokenIds
                 else succeed ()) (\<lambda>_.
        succeed (finalRewardTokenIds, 0, 0, 0)))
      else succeed ([], 0, 0, 0))"

text \<open>The \<open>try\<close> block of \<open>handleSubmit\<close>, for the connected address \<open>address\<close>.\<close>

definition submitDrop ::
  "lib \<Rightarrow> remote \<Rightarrow> string \<Rightarrow> 'z createPage_scheme \<Rightarrow> (unit, 'z createPage_scheme) action" where
  "submitDrop L R address c =
     andThen (lift (case parseInt L (form_maxParticipants c) of
                      Some n \<Rightarrow> Inr n
                    | None \<Rightarrow> Inl (newError ''The number NaN cannot be converted to a BigInt'')))
       (\<lambda>participantsCount.
     andThen (lift (if selectedRewardType c = USDC then Inr USDC_BASE_ADDRESS
                    else if selectedRewardType c = ERC20 \<or> selectedRewardType c = NFT
                    then getAddress L (rewardTokenAddress c)
                    else Inr ZERO_ADDRESS)) (\<lambda>effectiveRewardTokenAddr.
     andThen (prepareFunding L R c effectiveRewardTokenAddr)
       (\<lambda>(finalRewardTokenIds, finalEntryFeeBigInt, finalRewardAmountBigInt, ethValueToSend).
     andThen (if fundingType c = HostFunded \<and> isSponsoredGame c then
                andThen (toast (ToastInfo ''Creating sponsored game...'')) (\<lambda>_.
                writeContract R (contractAddress R) ''sponsorGame''
                  [AInt finalRewardAmountBigInt, AStr effectiveRewardTokenAddr,
                   AType (selectedRewardType c), AInts finalRewardTokenIds,
                   AInt participantsCount, ABool (selectionType c = Manual),
                   AInt (form_numWinners c)] 0)
              else
                andThen (toast (ToastInfo ''Creating drop...'')) (\<lambda>_.
                writeContract R (contractAddress R) ''createDrop''
                  [AInt finalEntryFeeBigInt, AInt finalRewardAmountBigInt,
                   AStr effectiveRewardTokenAddr, AType (selectedRewardType c),
                   AInts finalRewardTokenIds, AInt participantsCount,
                   ABool (fundingType c = ParticipantPaid), ABool (selectionType c = Manual),
                   AInt (form_numWinners c)] ethValueToSend)) (\<lambda>txHash.
     andThen (waitForTransactionReceipt R txHash) (\<lambda>logs.
     andThen (tryCatch
                (andThen (postSendNotification R
                            (absent\<lparr> nd_category :=
                                       (if fundingType c = HostFunded \<and> isSponsoredGame c
                                        then ''game-sponsored'' else ''game-created''),
                                     nd_dropId := Some (parseDropCreated L (contractAddress R) logs),
                                     nd_hostAddress := Some address,
                                     nd_rewardAmount := Some (rewardAmountString c),
                                     nd_tokenSymbol :=
                                       Some (if fetchedTokenSymbol c \<noteq> [] then fetchedTokenSymbol c
                                             else if selectedRewardType c = ETH then ''ETH''
                                             else ''Unknown''),
                                     nd_maxParticipants := parseInt L (form_maxParticipants c),
                                     nd_numWinners := Some (form_numWinners c),
                                     nd_entryFee :=
                                       Some (if entryFeeString c \<noteq> [] then entryFeeString c
                                             else ''0''),
                                     nd_transactionHash := Some txHash \<rparr>)) (\<lambda>response.
                 andThen (lift (json response)) (\<lambda>result.
                 if \<not> ok response \<or> \<not> success result
                 then toast (ToastWarn (''Notification failed: '' @ r_message result))
                 else succeed ())))
                (\<lambda>notificationError. toast (ToastWarn ''Failed to send notification''))) (\<lambda>_.
     andThen (toast (ToastSuccess (''Drop created! Tx: '' @ take 10 txHash @ ''...''))) (\<lambda>_.
     navigate ''/available'')))))))"

text \<open>
  \<open>handleSubmit\<close> for the wallet \<open>H\<close>. The toast of a failed validation shows the
  \<open>errorMessage\<close> the handler captured, the one from before the validation.
\<close>

definition handleSubmit :: "lib \<Rightarrow> remote \<Rightarrow> hooks \<Rightarrow> (unit, 'z createPage_scheme) action" where
  "handleSubmit L R H = (\<lambda>w.
     if \<not> isConnected H \<or> \<not> walletClient H \<or> \<not> truthy (h_address H)
     then toast (ToastError ''Please connect your wallet.'') w
     else
       andThen (validateInputs L) (\<lambda>valid.
         if \<not> valid
         then toast (ToastError (orElse (errorMessage w) ''Form errors detected.''))
         else
           andThen (modify (\<lambda>w. w\<lparr>isSubmitting := True\<rparr>)) (\<lambda>_.
           tryFinally
             (tryCatch (submitDrop L R (propertyKey (h_address H)) w)
                (\<lambda>err.
                   andThen (modify (\<lambda>w. w\<lparr>errorMessage :=
                              Some (errorMessageOf err ''Unknown error.'')\<rparr>)) (\<lambda>_.
                   toast (ToastError (errorMessageOf err ''Unknown error.'')))))
             (\<lambda>w. w\<lparr>isSubmitting := False\<rparr>))) w)"

section \<open>A sample environment\<close>

text \<open>
  Concrete library functions and remote sides at which the theorems below are
  instantiated. The sample formatter prints the raw amount and the number of decimals.
\<close>

definition sampleFormatUnits :: "int \<Rightarrow> nat \<Rightarrow> string" where
  "sampleFormatUnits v d = number_toString (nat v) @ ''e-'' @ number_toString d"

definition sampleGetAddress :: "string \<Rightarrow> error + string" where
  "sampleGetAddress a = (if length a = 42 then Inr a else Inl (newError ''Address is invalid.''))"

definition sampleBigInt :: "string \<Rightarrow> error + int" where
  "sampleBigInt s = (if s = ''7'' then Inr 7 else Inl (newError ''Cannot convert to a BigInt''))"

definition sampleParseInt :: "string \<Rightarrow> int option" where
  "sampleParseInt s =
     (if s = ''10'' then Some 10 else if s = ''2'' then Some 2 else if s = ''1'' then Some 1
      else if s = ''500'' then Some 500 else None)"

definition sampleLib :: lib where
  "sampleLib =
     \<lparr> isAddress = (\<lambda>a. length a = 42),
       getAddress = sampleGetAddress,
       formatUnits = sampleFormatUnits,
       formatEther = (\<lambda>v. sampleFormatUnits v 18),
       toUpperCase = (\<lambda>s. s),
       toLowerCase = (\<lambda>s. s),
       BigInt = sampleBigInt,
       injectFrameMeta = (\<lambda>base dropId prize html. html @ ''<!-- '' @ prize @ '' -->''),
       parseInt = sampleParseInt,
       trim = (\<lambda>s. s),
       parseFloat_le_0 = (\<lambda>s. s = ''0''),
       rewardMismatch = (\<lambda>reward fee n. False),
       parseEther = (\<lambda>s. Inl (newError ''invalid decimal number'')),
       parseUnits = (\<lambda>s d. Inl (newError ''invalid decimal number'')) \<rparr>"

definition reverted :: error where
  "reverted = newError ''execution reverted''"

definition deadRemote :: remote where
  "deadRemote =
     \<lparr> contractAddress = ''0x00000000000000000000000000000000000000c0'',
       reply_decimals = (\<lambda>h a. Inl reverted),
       reply_symbol = (\<lambda>h a. Inl reverted),
       reply_balanceOf = (\<lambda>h a b. Inl reverted),
       reply_getBalance = (\<lambda>h a. Inl reverted),
       reply_getDropInfo = (\<lambda>h n. Inl reverted),
       reply_getDropParticipants = (\<lambda>h n. Inl reverted),
       reply_writeContract = (\<lambda>h r. Inl reverted),
       reply_receipt = (\<lambda>h x. Inl reverted),
       reply_sdkContext = (\<lambda>h. Inl reverted),
       reply_sendNotification = (\<lambda>h d. Inl reverted),
       reply_bulkByAddress = (\<lambda>h as. Inl reverted),
       reply_notifications = (\<lambda>h fids n. Inl reverted),
       reply_frameUsers = (\<lambda>h. Inl reverted),
       reply_readIndexHtml = (\<lambda>h. Inl reverted),
       reply_import = (\<lambda>h m. Inl reverted) \<rparr>"

definition sampleToken :: string where
  "sampleToken = ''0x833589fCD6eDb6E08f4c7C32D4f71b54bdA02913''"

definition alice :: string where
  "alice = ''0x00000000000000000000000000000000000a11ce''"

definition bob :: string where
  "bob = ''0x0000000000000000000000000000000000000b0b''"

definition carol :: string where
  "carol = ''0x00000000000000000000000000000000000ca401''"

text \<open>The page as it is mounted, and a wallet that is connected as \<open>alice\<close> on drop 7.\<close>

definition page0 :: page where
  "page0 =
     \<lparr> calls = [], toasts = [], navigations = [], dropInfo = None, participants = [],
       loadingData = True, actionInProgress = False, error = None,
       isCancelledForUI = False, winnerIndices = [], animateWinners = False,
       profileRequests = [] \<rparr>"

definition aliceHooks :: hooks where
  "aliceHooks =
     \<lparr> isConnected = True, isConnecting = False, isWalletClientLoading = False,
       walletClient = True, h_address = Some alice, h_dropId = Some ''7'' \<rparr>"

text \<open>A sponsored drop nobody has funded yet, and a remote side that serves it.\<close>

definition unfundedDrop :: dropDetailsArray where
  "unfundedDrop =
     \<lparr> dd_host = alice, dd_sponsor = ZERO_ADDRESS, dd_rawEntryFee = 0,
       dd_rawRewardAmountFromContract = 1500000, dd_rewardToken = sampleToken,
       dd_rewardTypeNum = USDC, dd_rewardTokenIdsBigInt = [], dd_maxParticipants = 10,
       dd_currentParticipants = 0, dd_isActive = True, dd_isCompleted = False,
       dd_isPaidEntry = False, dd_isManualSelection = True, dd_isSponsored = True,
       dd_numWinners = 1, dd_fundingDeadline = 1750000000, dd_winnersAddresses = [] \<rparr>"

definition unfundedRemote :: remote where
  "unfundedRemote = deadRemote\<lparr>reply_getDropInfo := (\<lambda>h n. Inr unfundedDrop)\<rparr>"

text \<open>
  A completed drop of \<open>carol\<close>'s with the winners \<open>bob\<close> and \<open>carol\<close>, of whom only \<open>bob\<close>
  is among the participants \<open>alice\<close> and \<open>bob\<close>.
\<close>

definition completedDrop :: dropDetailsArray where
  "completedDrop =
     \<lparr> dd_host = carol, dd_sponsor = ZERO_ADDRESS, dd_rawEntryFee = 0,
       dd_rawRewardAmountFromContract = 5, dd_rewardToken = ZERO_ADDRESS,
       dd_rewardTypeNum = ETH, dd_rewardTokenIdsBigInt = [], dd_maxParticipants = 2,
       dd_currentParticipants = 2, dd_isActive = False, dd_isCompleted = True,
       dd_isPaidEntry = False, dd_isManualSelection = True, dd_isSponsored = False,
       dd_numWinners = 2, dd_fundingDeadline = 0, dd_winnersAddresses = [bob, carol] \<rparr>"

definition completedRemote :: remote where
  "completedRemote =
     deadRemote\<lparr> reply_getDropInfo := (\<lambda>h n. Inr completedDrop),
                 reply_getDropParticipants := (\<lambda>h n. Inr ([alice, bob], [''Alice'', ''Bob''])) \<rparr>"

text \<open>The same drop with \<open>alice\<close> listed twice as a participant and as the only winner.\<close>

definition twiceRemote :: remote where
  "twiceRemote =
     deadRemote\<lparr> reply_getDropInfo := (\<lambda>h n. Inr (completedDrop\<lparr>dd_winnersAddresses := [alice]\<rparr>)),
                 reply_getDropParticipants := (\<lambda>h n. Inr ([alice, alice], [''Alice'', ''Alice''])) \<rparr>"

text \<open>The local record of an open drop that \<open>alice\<close> hosts, with one participant.\<close>

definition aliceDrop :: DropInfo where
  "aliceDrop =
     \<lparr> drop_id = 7, host = alice, sponsor = ZERO_ADDRESS, entryFee = ''Free'',
       rewardAmount = ''5e-18 ETH'', rawEntryFee = 0, rawRewardAmount = 5,
       rewardToken = ZERO_ADDRESS, rewardType = ETH, rewardTokenIds = [],
       maxParticipants = 10, currentParticipants = 1, isActive = True,
       isCompleted = False, isPaidEntry = False, isManualSelection = True,
       isSponsored = False, numWinners = 2, fundingDeadline = 0, winners = [] \<rparr>"

definition alicePage :: page where
  "alicePage =
     page0\<lparr> dropInfo := Some aliceDrop,
            participants := [\<lparr>p_address = bob, p_name = ''Bob'', slot = 0\<rparr>],
            loadingData := False \<rparr>"

text \<open>
  The notification endpoint with its key set, a cache that knows \<open>alice\<close> and \<open>bob\<close> by
  FID and \<open>carol\<close> without one, and the body sent when winners are selected.
\<close>

definition sampleEnv :: env where
  "sampleEnv =
     \<lparr> NEYNAR_API_KEY = Some ''key'', CONTRACT_ADDRESS = Some sampleToken,
       ALCHEMY_API_KEY = Some ''key'', APP_URL = None \<rparr>"

definition cachedServer :: server where
  "cachedServer =
     \<lparr> calls = [],
       profileCache =
         [alice \<mapsto> \<lparr>fid = Some 11, username = Some ''alice'', displayName = None,
                     pfpUrl = None, custodyAddress = alice\<rparr>,
          bob \<mapsto> \<lparr>fid = Some 22, username = Some ''bob'', displayName = None,
                   pfpUrl = None, custodyAddress = bob\<rparr>,
          carol \<mapsto> nullProfile carol] \<rparr>"

definition winnersPayload :: notificationData where
  "winnersPayload =
     absent\<lparr> nd_category := ''winners-selected'', nd_dropId := Some ''7'',
             nd_winnerAddresses := Some [carol] \<rparr>"

text \<open>
  A remote side on which a join goes through, \<open>bob\<close>'s wallet on the page of the drop
  that \<open>alice\<close> hosts, and the body the page then posts.
\<close>

definition joinRemote :: remote where
  "joinRemote =
     deadRemote\<lparr> reply_sdkContext := (\<lambda>h. Inr None),
                 reply_writeContract := (\<lambda>h r. Inr ''0xjoin''),
                 reply_receipt := (\<lambda>h x. Inr []),
                 reply_sendNotification :=
                   (\<lambda>h d. Inr \<lparr>ok = True, status = 200,
                               json = Inr \<lparr>success = True, r_message = ''Notification sent''\<rparr>\<rparr>),
                 reply_notifications :=
                   (\<lambda>h fids n. Inr \<lparr>ok = True, status = 200,
                                    json = Inr \<lparr>success = True, r_message = []\<rparr>\<rparr>) \<rparr>"

definition bobHooks :: hooks where
  "bobHooks = aliceHooks\<lparr>h_address := Some bob\<rparr>"

definition hostedPage :: page where
  "hostedPage = alicePage\<lparr>participants := []\<rparr>"

definition joinedPayload :: notificationData where
  "joinedPayload =
     absent\<lparr> nd_category := ''game-joined'', nd_dropId := Some ''7'',
             nd_participantAddress := Some bob, nd_participantName := Some ''User-0b0b'',
             nd_entryFee := Some ''Free'', nd_rewardType := Some ETH,
             nd_transactionHash := Some ''0xjoin'' \<rparr>"

text \<open>
  The frame handler before its first request, a remote side on which the modules load
  and the page can be read, and one on which the page cannot be read.
\<close>

definition frame0 :: frame where
  "frame0 =
     \<lparr> calls = [], FIREBALL_DROP_ABI_MODULE = None, ERC20_MINIMAL_ABI_MODULE = None,
       REWARD_TYPE_MODULE = None, response = None \<rparr>"

definition pageRemote :: remote where
  "pageRemote =
     deadRemote\<lparr> reply_import := (\<lambda>h m. Inr True),
                 reply_readIndexHtml := (\<lambda>h. Inr ''<html><head></head></html>'') \<rparr>"

definition noPageRemote :: remote where
  "noPageRemote =
     deadRemote\<lparr> reply_import := (\<lambda>h m. Inr True),
                 reply_readIndexHtml :=
                   (\<lambda>h. Inl (newError ''ENOENT: no such file or directory'')) \<rparr>"

definition loadedFrame :: frame where
  "loadedFrame =
     \<lparr> calls = [ImportModule ''../src/utils/cjs/FireballDropAbi.cjs'',
                ImportModule ''../src/utils/cjs/erc20.cjs'',
                ImportModule ''../src/types/cjs/global.cjs''],
       FIREBALL_DROP_ABI_MODULE = Some True, ERC20_MINIMAL_ABI_MODULE = Some True,
       REWARD_TYPE_MODULE = Some True, response = None \<rparr>"

text \<open>
  The creation form as it is mounted, and the form after the user sets two participants
  and two winners.
\<close>

definition form0 :: createPage where
  "form0 =
     \<lparr> calls = [], toasts = [], navigations = [], fundingType = ParticipantPaid,
       isSponsoredGame = False, selectedRewardType = ETH, entryFeeString = [],
       rewardAmountString = [], rewardTokenAddress = [], rewardTokenIdsString = [],
       fetchedTokenName = [], fetchedTokenSymbol = [], form_maxParticipants = ''10'',
       form_numWinners = 1, selectionType = Manual, isSubmitting = False,
       errorMessage = None \<rparr>"

definition twoOfTwo :: createPage where
  "twoOfTwo = form0\<lparr>form_maxParticipants := ''2'', form_numWinners := 2\<rparr>"

section \<open>Properties of the formatters\<close>

lemma getTokenDecimals_total:
  "\<exists>d. fst (getTokenDecimals R a w) = Inr d \<and>
     (isl (fst (ERC20_decimals R a w)) \<longrightarrow> d = 18)"
  by (cases "reply_decimals R (calls w) a")
     (simp_all add: getTokenDecimals_def succeed_def tryCatch_def ERC20_decimals_def request_def)

lemma token_display:
  "\<exists>sym dec w'.
     andThen (getTokenDecimals R a) (\<lambda>decimals.
       andThen (tryCatch
                  (andThen (ERC20_symbol R a) (\<lambda>symbol.
                     succeed (if toUpperCase L symbol = ''FIREBALL'' then ''fire-ball''
                              else symbol)))
                  (\<lambda>e. succeed ''Tokens'')) (\<lambda>symbol.
       succeed (formatUnits L raw decimals @ '' '' @ symbol))) w
       = (Inr (formatUnits L raw dec @ '' '' @ sym), w') \<and>
     (isl (fst (ERC20_decimals R a w)) \<longrightarrow> dec = 18) \<and>
     (isl (fst (ERC20_symbol R a (snd (getTokenDecimals R a w)))) \<longrightarrow> sym = ''Tokens'')"
proof -
  obtain d where d: "fst (getTokenDecimals R a w) = Inr d"
    and d18: "isl (fst (ERC20_decimals R a w)) \<longrightarrow> d = 18"
    using getTokenDecimals_total by blast
  obtain w1 where run: "getTokenDecimals R a w = (Inr d, w1)"
    using d by (cases "getTokenDecimals R a w") simp
  obtain r w2 where sym: "ERC20_symbol R a w1 = (r, w2)"
    by (cases "ERC20_symbol R a w1")
  show ?thesis
  proof (cases r)
    case (Inl e)
    then show ?thesis
      using d18 by (auto simp: andThen_def tryCatch_def succeed_def run sym)
  next
    case (Inr s)
    then show ?thesis
      using d18 by (auto simp: andThen_def tryCatch_def succeed_def run sym)
  qed
qed

text \<open>
  C9: the entry-fee formatter answers exactly \<open>Free\<close> when the drop is not paid-entry or
  the raw fee is zero, and it leaves the world as it was: no request is made.
\<close>

theorem formatEntryFeeDisplay_free:
  "\<not> paid \<or> raw = 0 \<Longrightarrow>
     formatEntryFeeDisplay L R raw paid rt tok w = (Inr ''Free'', w)"
  by (simp add: formatEntryFeeDisplay_def succeed_def)

theorem formatEntryFeeDisplay_free_witness:
  "formatEntryFeeDisplay sampleLib deadRemote 0 True ERC20 sampleToken \<lparr>calls = []\<rparr>
     = (Inr ''Free'', \<lparr>calls = []\<rparr>)"
  using formatEntryFeeDisplay_free [of True 0 sampleLib deadRemote ERC20 sampleToken "\<lparr>calls = []\<rparr>"]
  by simp

text \<open>
  C1: neither formatter ever throws, whatever the remote reads answer. For a token
  reward (USDC or ERC20) the display string is the formatted amount, a space and a
  symbol; the amount is formatted with 18 decimals when the decimals lookup fails, and
  the symbol is \<open>Tokens\<close> when the symbol lookup fails. The same holds for the entry fee
  of a paid drop with a non-zero fee.
\<close>

theorem formatters_default_on_lookup_failure:
  "(\<exists>s w'. formatRewardDisplay L R raw rt tok n ids w = (Inr s, w')) \<and>
   (\<exists>s w'. formatEntryFeeDisplay L R raw paid rt tok w = (Inr s, w')) \<and>
   (rt = USDC \<or> rt = ERC20 \<longrightarrow>
      (\<exists>sym dec.
         fst (formatRewardDisplay L R raw rt tok n ids w)
           = Inr (formatUnits L raw dec @ '' '' @ sym) \<and>
         (isl (fst (ERC20_decimals R tok w)) \<longrightarrow> dec = 18) \<and>
         (isl (fst (ERC20_symbol R tok (snd (getTokenDecimals R tok w))))
            \<longrightarrow> sym = ''Tokens''))) \<and>
   ((rt = USDC \<or> rt = ERC20) \<and> paid \<and> raw \<noteq> 0 \<longrightarrow>
      (\<exists>sym dec.
         fst (formatEntryFeeDisplay L R raw paid rt tok w)
           = Inr (formatUnits L raw dec @ '' '' @ sym) \<and>
         (isl (fst (ERC20_decimals R tok w)) \<longrightarrow> dec = 18) \<and>
         (isl (fst (ERC20_symbol R tok (snd (getTokenDecimals R tok w))))
            \<longrightarrow> sym = ''Tokens'')))"
proof -
  obtain sym dec w' where run:
    "andThen (getTokenDecimals R tok) (\<lambda>decimals.
       andThen (tryCatch
                  (andThen (ERC20_symbol R tok) (\<lambda>symbol.
                     succeed (if toUpperCase L symbol = ''FIREBALL'' then ''fire-ball''
                              else symbol)))
                  (\<lambda>e. succeed ''Tokens'')) (\<lambda>symbol.
       succeed (formatUnits L raw decimals @ '' '' @ symbol))) w
       = (Inr (formatUnits L raw dec @ '' '' @ sym), w')"
    and dec: "isl (fst (ERC20_decimals R tok w)) \<longrightarrow> dec = 18"
    and sym: "isl (fst (ERC20_symbol R tok (snd (getTokenDecimals R tok w))))
                \<longrightarrow> sym = ''Tokens''"
    using token_display [of R tok L raw w] by blast
  have reward: "\<exists>s w'. formatRewardDisplay L R raw rt tok n ids w = (Inr s, w')"
    using run by (simp add: formatRewardDisplay_def succeed_def)
  have fee: "\<exists>s w'. formatEntryFeeDisplay L R raw paid rt tok w = (Inr s, w')"
    using run by (simp add: formatEntryFeeDisplay_def succeed_def)
  have reward_token: "rt = USDC \<or> rt = ERC20 \<Longrightarrow>
      fst (formatRewardDisplay L R raw rt tok n ids w)
        = Inr (formatUnits L raw dec @ '' '' @ sym)"
    using run by (auto simp: formatRewardDisplay_def)
  have fee_token: "(rt = USDC \<or> rt = ERC20) \<and> paid \<and> raw \<noteq> 0 \<Longrightarrow>
      fst (formatEntryFeeDisplay L R raw paid rt tok w)
        = Inr (formatUnits L raw dec @ '' '' @ sym)"
    using run by (auto simp: formatEntryFeeDisplay_def)
  show ?thesis
    using reward fee reward_token fee_token dec sym by blast
qed

theorem formatters_default_on_lookup_failure_witness:
  "fst (formatRewardDisplay sampleLib deadRemote 1500000 USDC sampleToken 1 []
          \<lparr>calls = []\<rparr>) = Inr ''1500000e-18 Tokens'' \<and>
   fst (formatEntryFeeDisplay sampleLib deadRemote 1500000 True USDC sampleToken
          \<lparr>calls = []\<rparr>) = Inr ''1500000e-18 Tokens''"
proof -
  have dec: "isl (fst (ERC20_decimals deadRemote sampleToken w))" for w :: world
    by (simp add: ERC20_decimals_def request_def deadRemote_def)
  have sym: "isl (fst (ERC20_symbol deadRemote sampleToken w))" for w :: world
    by (simp add: ERC20_symbol_def request_def deadRemote_def)
  have fmt: "formatUnits sampleLib 1500000 18 = ''1500000e-18''"
    by (simp add: sampleLib_def sampleFormatUnits_def number_toString.simps)
  show ?thesis
    using formatters_default_on_lookup_failure
            [of sampleLib deadRemote 1500000 USDC sampleToken 1 "[]" "\<lparr>calls = []\<rparr>" True]
    by (auto simp: dec sym fmt)
qed

section \<open>Properties of fetching a drop\<close>

lemmas monad_defs = succeed_def throw_def andThen_def tryCatch_def tryFinally_def modify_def
  lift_def request_def

lemma calls_unchanged: "\<exists>cs. w = w\<lparr>calls := cs\<rparr>"
  by (rule exI [of _ "calls w"]) simp

lemma getTokenDecimals_frame:
  "\<exists>d cs. getTokenDecimals R a w = (Inr d, w\<lparr>calls := cs\<rparr>)"
  by (cases "reply_decimals R (calls w) a")
     (auto simp: getTokenDecimals_def monad_defs ERC20_decimals_def calls_unchanged)

lemma formatRewardDisplay_frame:
  "\<exists>s cs. formatRewardDisplay L R raw rt tok n ids w = (Inr s, w\<lparr>calls := cs\<rparr>)"
proof -
  obtain d cs where d: "getTokenDecimals R tok w = (Inr d, w\<lparr>calls := cs\<rparr>)"
    using getTokenDecimals_frame by blast
  show ?thesis
    by (cases "reply_symbol R cs tok")
       (auto simp: formatRewardDisplay_def monad_defs ERC20_symbol_def d calls_unchanged)
qed

lemma formatEntryFeeDisplay_frame:
  "\<exists>s cs. formatEntryFeeDisplay L R raw paid rt tok w = (Inr s, w\<lparr>calls := cs\<rparr>)"
proof -
  obtain d cs where d: "getTokenDecimals R tok w = (Inr d, w\<lparr>calls := cs\<rparr>)"
    using getTokenDecimals_frame by blast
  show ?thesis
    by (cases "reply_symbol R cs tok")
       (auto simp: formatEntryFeeDisplay_def monad_defs ERC20_symbol_def d calls_unchanged)
qed

lemma addIfAddress_total:
  assumes "isAddress L a \<longrightarrow> \<not> isl (getAddress L a)"
  shows "\<exists>s'. addIfAddress L a s = Inr s'"
  using assms by (cases "getAddress L a") (auto simp: addIfAddress_def)

lemma addAllIfAddress_total:
  assumes "\<forall>a \<in> set as. isAddress L a \<longrightarrow> \<not> isl (getAddress L a)"
  shows "\<exists>s'. addAllIfAddress L as s = Inr s'"
  using assms
proof (induction as arbitrary: s)
  case Nil
  then show ?case by simp
next
  case (Cons a as)
  then obtain s1 where "addIfAddress L a s = Inr s1"
    using addIfAddress_total [of L a s] by auto
  then show ?case using Cons by simp
qed

lemma participantListFrom_total:
  assumes "\<forall>a \<in> set addrs. isAddress L a \<longrightarrow> \<not> isl (getAddress L a)"
  shows "\<exists>ps s'. participantListFrom L addrs names i s = Inr (ps, s') \<and>
           map p_address ps = addrs"
  using assms
proof (induction addrs arbitrary: i s)
  case Nil
  then show ?case by simp
next
  case (Cons a addrs)
  then obtain s1 where s1: "addIfAddress L a s = Inr s1"
    using addIfAddress_total [of L a s] by auto
  from Cons obtain ps s2 where
    "participantListFrom L addrs names (Suc i) s1 = Inr (ps, s2)" "map p_address ps = addrs"
    by fastforce
  then show ?case using s1 by simp
qed

lemma fetchAndSetDropInfo_success:
  assumes lib: "\<forall>a. isAddress L a \<longrightarrow> \<not> isl (getAddress L a)"
    and id: "BigInt L currentDropId = Inr n"
    and reply: "reply_getDropInfo R (calls w) n = Inr t"
    and funded: "\<not> (dd_isSponsored t \<and> dd_sponsor t = ZERO_ADDRESS \<and> dd_isActive t)"
    and parts: "\<forall>h. reply_getDropParticipants R h n = Inr (addrs, names)"
    and idx: "winnerIndexList L (dd_winnersAddresses t) addrs = Inr idx"
  shows "\<exists>w' d. fetchAndSetDropInfo L R currentDropId init w = (Inr (), w') \<and>
           dropInfo w' = Some d \<and> winners d = dd_winnersAddresses t \<and>
           map p_address (participants w') = addrs \<and>
           winnerIndices w' =
             (if dd_isCompleted t \<and> dd_winnersAddresses t \<noteq> [] \<and> idx \<noteq> [] then idx
              else winnerIndices w)"
proof -
  define w0 where "w0 = (if init then w\<lparr>loadingData := True\<rparr> else w)"
  define w1 where
    "w1 = w0\<lparr>calls := calls w0 @ [ReadContract (contractAddress R) ''getDropInfo'' [AInt n]]\<rparr>"
  have r1: "getDropInfo R n w0 = (Inr t, w1)"
    using reply by (simp add: getDropInfo_def request_def w0_def w1_def)
  obtain s1 where s1: "addIfAddress L (dd_host t) [] = Inr s1"
    using addIfAddress_total lib by blast
  have "\<exists>s2. (if dd_isSponsored t \<and> dd_sponsor t \<noteq> ZERO_ADDRESS
                          then addIfAddress L (dd_sponsor t) s1 else Inr s1) = Inr s2"
    using addIfAddress_total [of L "dd_sponsor t" s1] lib by simp
  then obtain s2 where s2: "(if dd_isSponsored t \<and> dd_sponsor t \<noteq> ZERO_ADDRESS
                          then addIfAddress L (dd_sponsor t) s1 else Inr s1) = Inr s2" ..
  obtain fee cs1 where r2: "formatEntryFeeDisplay L R (dd_rawEntryFee t) (dd_isPaidEntry t)
                      (dd_rewardTypeNum t)
                      (if dd_isPaidEntry t \<and>
                          (dd_rewardTypeNum t = ERC20 \<or> dd_rewardTypeNum t = USDC)
                       then dd_rewardToken t else ZERO_ADDRESS) w1 = (Inr fee, w1\<lparr>calls := cs1\<rparr>)"
    using formatEntryFeeDisplay_frame by blast
  define w2 where "w2 = w1\<lparr>calls := cs1\<rparr>"
  obtain reward cs2 where r3: "formatRewardDisplay L R (dd_rawRewardAmountFromContract t)
                      (dd_rewardTypeNum t) (dd_rewardToken t) (dd_numWinners t)
                      (map bigint_toString (dd_rewardTokenIdsBigInt t)) w2
                     = (Inr reward, w2\<lparr>calls := cs2\<rparr>)"
    using formatRewardDisplay_frame by blast
  define w3 where "w3 = w2\<lparr>calls := cs2\<rparr>"
  define w4 where
    "w4 = w3\<lparr>calls := calls w3 @ [ReadContract (contractAddress R) ''getDropParticipants'' [AInt n]]\<rparr>"
  have r4: "getDropParticipants R n w3 = (Inr (addrs, names), w4)"
    using parts by (simp add: getDropParticipants_def request_def w4_def)
  obtain ps s3 where ps: "participantListFrom L addrs names 0 s2 = Inr (ps, s3)"
    "map p_address ps = addrs"
    using participantListFrom_total lib by blast
  obtain s4 where s4: "addAllIfAddress L (dd_winnersAddresses t) s3 = Inr s4"
    using addAllIfAddress_total lib by blast
  have keep: "winnerIndices w4 = winnerIndices w"
    by (simp add: w4_def w3_def w2_def w1_def w0_def)
  have r2': "formatEntryFeeDisplay L R (dd_rawEntryFee t) (dd_isPaidEntry t)
                      (dd_rewardTypeNum t)
                      (if dd_isPaidEntry t \<and>
                          (dd_rewardTypeNum t = ERC20 \<or> dd_rewardTypeNum t = USDC)
                       then dd_rewardToken t else ZERO_ADDRESS) w1 = (Inr fee, w2)"
    using r2 by (simp add: w2_def)
  have r3': "formatRewardDisplay L R (dd_rawRewardAmountFromContract t)
                      (dd_rewardTypeNum t) (dd_rewardToken t) (dd_numWinners t)
                      (map bigint_toString (dd_rewardTokenIdsBigInt t)) w2
                     = (Inr reward, w3)"
    using r3 by (simp add: w3_def)
  have funded': "(dd_isSponsored t \<and> dd_sponsor t = ZERO_ADDRESS \<and> dd_isActive t) = False"
    using funded by simp
  show ?thesis
    by (simp add: funded' fetchAndSetDropInfo_def monad_defs w0_def [symmetric] id r1 s1 s2 r2' r3' r4
          ps s4 idx keep getProfilesByAddresses_def)
qed


text \<open>
  C6: when the record fetched is sponsored, has the zero address as sponsor and is
  active, the fetcher shows the error toast, navigates to \<open>/available\<close> and sets the error
  \<open>Unfunded sponsored game\<close>; it makes no further request and leaves the drop record and
  the participants of the page as they were. (The host address, if \<open>isAddress\<close> accepts
  it, is one \<open>getAddress\<close> normalises, as the library promises.)
\<close>

theorem unfunded_sponsored_redirect:
  assumes id: "BigInt L currentDropId = Inr n"
    and reply: "reply_getDropInfo R (calls w) n = Inr t"
    and unfunded: "dd_isSponsored t" "dd_sponsor t = ZERO_ADDRESS" "dd_isActive t"
    and host: "isAddress L (dd_host t) \<longrightarrow> \<not> isl (getAddress L (dd_host t))"
  shows "fetchAndSetDropInfo L R currentDropId init w =
           (Inr (),
            w\<lparr>calls := calls w @ [ReadContract (contractAddress R) ''getDropInfo'' [AInt n]],
              loadingData := (if init then False else loadingData w),
              error := Some ''Unfunded sponsored game'',
              toasts := toasts w @ [ToastError ''This sponsored game is not funded yet.''],
              navigations := navigations w @ [''/available'']\<rparr>)"
proof -
  have "\<exists>s1. addIfAddress L (dd_host t) [] = Inr s1"
    using host by (cases "getAddress L (dd_host t)") (auto simp: addIfAddress_def)
  then obtain s1 where s1: "addIfAddress L (dd_host t) [] = Inr s1" ..
  show ?thesis
    using id reply unfunded s1
    by (simp add: fetchAndSetDropInfo_def monad_defs getDropInfo_def toast_def navigate_def
          newError_def)
qed

theorem unfunded_sponsored_redirect_witness:
  "fetchAndSetDropInfo sampleLib unfundedRemote ''7'' True page0 =
     (Inr (),
      page0\<lparr>calls := [ReadContract (contractAddress unfundedRemote) ''getDropInfo'' [AInt 7]],
        loadingData := False,
        error := Some ''Unfunded sponsored game'',
        toasts := [ToastError ''This sponsored game is not funded yet.''],
        navigations := [''/available'']\<rparr>)"
proof -
  have 1: "BigInt sampleLib ''7'' = Inr 7"
    by (simp add: sampleLib_def sampleBigInt_def)
  have 2: "reply_getDropInfo unfundedRemote (calls page0) 7 = Inr unfundedDrop"
    by (simp add: unfundedRemote_def)
  have 3: "dd_isSponsored unfundedDrop" "dd_sponsor unfundedDrop = ZERO_ADDRESS"
    "dd_isActive unfundedDrop"
    by (simp_all add: unfundedDrop_def)
  have 4: "isAddress sampleLib (dd_host unfundedDrop)
             \<longrightarrow> \<not> isl (getAddress sampleLib (dd_host unfundedDrop))"
    by (simp add: sampleLib_def sampleGetAddress_def)
  show ?thesis
    using unfunded_sponsored_redirect [OF 1 2 3 4, of True]
    by (simp add: page0_def)
qed

section \<open>The winner indices\<close>

lemma findIndex_result:
  assumes "\<forall>p \<in> set ps. f p = Inr (P p)"
  shows "\<exists>k. findIndex f ps i = Inr k \<and>
           ((k = - 1 \<and> (\<forall>p \<in> set ps. \<not> P p)) \<or>
            (\<exists>j < length ps. k = int (i + j) \<and> P (ps ! j) \<and> (\<forall>m < j. \<not> P (ps ! m))))"
  using assms
proof (induction ps arbitrary: i)
  case Nil
  then show ?case by simp
next
  case (Cons p ps)
  show ?case
  proof (cases "P p")
    case True
    then show ?thesis using Cons.prems by auto
  next
    case False
    from Cons.IH [of "Suc i"] Cons.prems
    obtain k where k: "findIndex f ps (Suc i) = Inr k"
      and alt: "(k = - 1 \<and> (\<forall>p \<in> set ps. \<not> P p)) \<or>
            (\<exists>j < length ps. k = int (Suc i + j) \<and> P (ps ! j) \<and> (\<forall>m < j. \<not> P (ps ! m)))"
      by auto
    have run: "findIndex f (p # ps) i = Inr k"
      using False Cons.prems k by simp
    from alt show ?thesis
    proof
      assume "k = - 1 \<and> (\<forall>p \<in> set ps. \<not> P p)"
      then show ?thesis using run False by auto
    next
      assume "\<exists>j < length ps. k = int (Suc i + j) \<and> P (ps ! j) \<and> (\<forall>m < j. \<not> P (ps ! m))"
      then obtain j where j: "j < length ps" "k = int (Suc i + j)" "P (ps ! j)"
        "\<forall>m < j. \<not> P (ps ! m)" by blast
      have "\<forall>m < Suc j. \<not> P ((p # ps) ! m)"
        using j(4) False by (auto simp: nth_Cons split: nat.splits)
      then have "Suc j < length (p # ps) \<and> k = int (i + Suc j) \<and> P ((p # ps) ! Suc j) \<and>
          (\<forall>m < Suc j. \<not> P ((p # ps) ! m))"
        using j by simp
      then show ?thesis using run by blast
    qed
  qed
qed

lemma mapE_total:
  assumes "\<forall>x \<in> set xs. f x = Inr (g x)"
  shows "mapE f xs = Inr (map g xs)"
  using assms by (induction xs) auto


lemma sameAddress_total:
  assumes "\<not> isl (getAddress L p)" "\<not> isl (getAddress L w)"
  shows "sameAddress L p w = Inr (getAddress L p = getAddress L w)"
  using assms
  by (cases "getAddress L p"; cases "getAddress L w") (auto simp: sameAddress_def)

lemma winnerIndexList_first_match:
  assumes norm: "\<forall>a \<in> set ws \<union> set ps. \<not> isl (getAddress L a)"
  shows "\<exists>idx. winnerIndexList L ws ps = Inr idx \<and>
           (\<forall>k. k \<in> set idx \<longleftrightarrow>
              (\<exists>i w. k = int i \<and> i < length ps \<and> w \<in> set ws \<and>
                 getAddress L (ps ! i) = getAddress L w \<and>
                 (\<forall>j < i. getAddress L (ps ! j) \<noteq> getAddress L w)))"
proof -
  define g where "g w = projr (findIndex (\<lambda>p. sameAddress L p w) ps 0)" for w
  have each: "findIndex (\<lambda>p. sameAddress L p w) ps 0 = Inr (g w) \<and>
      ((g w = - 1 \<and> (\<forall>p \<in> set ps. getAddress L p \<noteq> getAddress L w)) \<or>
       (\<exists>j < length ps. g w = int j \<and> getAddress L (ps ! j) = getAddress L w \<and>
          (\<forall>m < j. getAddress L (ps ! m) \<noteq> getAddress L w)))"
    if w: "w \<in> set ws" for w
  proof -
    have "\<forall>p \<in> set ps. sameAddress L p w = Inr (getAddress L p = getAddress L w)"
      using norm w by (simp add: sameAddress_total)
    from findIndex_result [OF this, of 0] show ?thesis
      by (auto simp: g_def)
  qed
  have run: "winnerIndexList L ws ps = Inr (filter (\<lambda>index. index \<noteq> - 1) (map g ws))"
    using each mapE_total [of ws "\<lambda>w. findIndex (\<lambda>p. sameAddress L p w) ps 0" g]
    by (simp add: winnerIndexList_def)
  have "k \<in> set (filter (\<lambda>index. index \<noteq> - 1) (map g ws)) \<longleftrightarrow>
          (\<exists>i w. k = int i \<and> i < length ps \<and> w \<in> set ws \<and>
             getAddress L (ps ! i) = getAddress L w \<and>
             (\<forall>j < i. getAddress L (ps ! j) \<noteq> getAddress L w))" (is "?l \<longleftrightarrow> ?r") for k
  proof
    assume ?l
    then obtain w where w: "w \<in> set ws" "g w = k" "k \<noteq> - 1" by auto
    from each [OF w(1)] w(2,3) obtain j where "j < length ps" "k = int j"
      "getAddress L (ps ! j) = getAddress L w"
      "\<forall>m < j. getAddress L (ps ! m) \<noteq> getAddress L w"
      by auto
    with w(1) show ?r by blast
  next
    assume ?r
    then obtain i w where iw: "k = int i" "i < length ps" "w \<in> set ws"
      "getAddress L (ps ! i) = getAddress L w"
      "\<forall>j < i. getAddress L (ps ! j) \<noteq> getAddress L w" by blast
    have "ps ! i \<in> set ps"
      using iw(2) by simp
    then have "\<not> (\<forall>p \<in> set ps. getAddress L p \<noteq> getAddress L w)"
      using iw(4) by blast
    with each [OF iw(3)] obtain j where j: "j < length ps" "g w = int j"
      "getAddress L (ps ! j) = getAddress L w"
      "\<forall>m < j. getAddress L (ps ! m) \<noteq> getAddress L w"
      by blast
    have "\<not> j < i" "\<not> i < j"
      using iw(4,5) j(3,4) by blast+
    then have "j = i"
      by simp
    then show ?l using iw(1,3) j(2) by force
  qed
  with run show ?thesis by blast
qed

lemma first_match_distinct:
  assumes "distinct (map f ps)" "i < length ps" "f (ps ! i) = y" "j < i"
  shows "f (ps ! j) \<noteq> y"
proof -
  have "j < length (map f ps)" "i < length (map f ps)" "j \<noteq> i"
    using assms by simp_all
  then have "map f ps ! j \<noteq> map f ps ! i"
    using assms(1) by (simp add: distinct_conv_nth)
  then show ?thesis
    using assms by simp
qed


text \<open>
  C7, as the code has it. When the fetch succeeds and the addresses of the winners and
  of the participants normalise, the page stores the winner list of the contract
  unchanged, and the indices derived are exactly, for each winner that some participant
  matches, the index of the first participant whose normalised address equals the
  winner's. They are all the matching participant indices when the normalised
  participant addresses are distinct. The page stores them when the drop is completed
  and there is at least one; otherwise the indices stored before stay.
  \<open>selectWinnersManually\<close> derives its indices by the same \<open>winnerIndexList\<close>.
\<close>

theorem winner_indices_first_match:
  assumes lib: "\<forall>a. isAddress L a \<longrightarrow> \<not> isl (getAddress L a)"
    and id: "BigInt L currentDropId = Inr n"
    and reply: "reply_getDropInfo R (calls w) n = Inr t"
    and funded: "\<not> (dd_isSponsored t \<and> dd_sponsor t = ZERO_ADDRESS \<and> dd_isActive t)"
    and parts: "\<forall>h. reply_getDropParticipants R h n = Inr (addrs, names)"
    and norm: "\<forall>a \<in> set (dd_winnersAddresses t) \<union> set addrs. \<not> isl (getAddress L a)"
  shows "\<exists>w' d idx.
           fetchAndSetDropInfo L R currentDropId init w = (Inr (), w') \<and>
           dropInfo w' = Some d \<and> winners d = dd_winnersAddresses t \<and>
           map p_address (participants w') = addrs \<and>
           winnerIndexList L (dd_winnersAddresses t) addrs = Inr idx \<and>
           winnerIndices w' =
             (if dd_isCompleted t \<and> dd_winnersAddresses t \<noteq> [] \<and> idx \<noteq> [] then idx
              else winnerIndices w) \<and>
           (\<forall>k. k \<in> set idx \<longleftrightarrow>
              (\<exists>i wa. k = int i \<and> i < length addrs \<and> wa \<in> set (dd_winnersAddresses t) \<and>
                 getAddress L (addrs ! i) = getAddress L wa \<and>
                 (\<forall>j < i. getAddress L (addrs ! j) \<noteq> getAddress L wa))) \<and>
           (distinct (map (getAddress L) addrs) \<longrightarrow>
              (\<forall>k. k \<in> set idx \<longleftrightarrow>
                 (\<exists>i wa. k = int i \<and> i < length addrs \<and> wa \<in> set (dd_winnersAddresses t) \<and>
                    getAddress L (addrs ! i) = getAddress L wa)))"
proof -
  obtain idx where idx: "winnerIndexList L (dd_winnersAddresses t) addrs = Inr idx"
    and first: "\<forall>k. k \<in> set idx \<longleftrightarrow>
              (\<exists>i wa. k = int i \<and> i < length addrs \<and> wa \<in> set (dd_winnersAddresses t) \<and>
                 getAddress L (addrs ! i) = getAddress L wa \<and>
                 (\<forall>j < i. getAddress L (addrs ! j) \<noteq> getAddress L wa))"
    using winnerIndexList_first_match [OF norm] by blast
  have all: "\<forall>k. k \<in> set idx \<longleftrightarrow>
                 (\<exists>i wa. k = int i \<and> i < length addrs \<and> wa \<in> set (dd_winnersAddresses t) \<and>
                    getAddress L (addrs ! i) = getAddress L wa)"
    if "distinct (map (getAddress L) addrs)"
    using first first_match_distinct [OF that] by blast
  from fetchAndSetDropInfo_success [OF lib id reply funded parts idx, of init]
  obtain w' d where "fetchAndSetDropInfo L R currentDropId init w = (Inr (), w')"
    "dropInfo w' = Some d" "winners d = dd_winnersAddresses t"
    "map p_address (participants w') = addrs"
    "winnerIndices w' =
       (if dd_isCompleted t \<and> dd_winnersAddresses t \<noteq> [] \<and> idx \<noteq> [] then idx
        else winnerIndices w)"
    by blast
  with idx first all show ?thesis
    by blast
qed

lemma sampleLib_normalises:
  "\<forall>a. isAddress sampleLib a \<longrightarrow> \<not> isl (getAddress sampleLib a)"
  by (simp add: sampleLib_def sampleGetAddress_def)

theorem winner_indices_first_match_witness:
  "\<exists>w' d. fetchAndSetDropInfo sampleLib completedRemote ''7'' True page0 = (Inr (), w') \<and>
     dropInfo w' = Some d \<and> winners d = [bob, carol] \<and>
     map p_address (participants w') = [alice, bob] \<and> winnerIndices w' = [1]"
proof -
  have 1: "BigInt sampleLib ''7'' = Inr 7"
    by (simp add: sampleLib_def sampleBigInt_def)
  have 2: "reply_getDropInfo completedRemote (calls page0) 7 = Inr completedDrop"
    by (simp add: completedRemote_def)
  have 3: "\<not> (dd_isSponsored completedDrop \<and> dd_sponsor completedDrop = ZERO_ADDRESS \<and>
              dd_isActive completedDrop)"
    by (simp add: completedDrop_def)
  have 4: "\<forall>h. reply_getDropParticipants completedRemote h 7
             = Inr ([alice, bob], [''Alice'', ''Bob''])"
    by (simp add: completedRemote_def)
  have 5: "\<forall>a \<in> set (dd_winnersAddresses completedDrop) \<union> set [alice, bob].
             \<not> isl (getAddress sampleLib a)"
    by (simp add: completedDrop_def sampleLib_def sampleGetAddress_def alice_def bob_def
          carol_def)
  have 6: "winnerIndexList sampleLib (dd_winnersAddresses completedDrop) [alice, bob]
             = Inr [1]"
    by (simp add: completedDrop_def winnerIndexList_def sameAddress_def sampleLib_def
          sampleGetAddress_def alice_def bob_def carol_def)
  show ?thesis
    using winner_indices_first_match [OF sampleLib_normalises 1 2 3 4 5, of True] 6
    by (auto simp: completedDrop_def)
qed

text \<open>
  The claim as the specification states it fails when a participant is listed twice:
  with the participants \<open>alice, alice\<close> and the winner \<open>alice\<close>, the participant at index 1
  has the winner's normalised address, yet the indices stored are \<open>[0]\<close>.
\<close>

theorem winner_indices_all_matches_counterexample:
  "map p_address (participants (snd (fetchAndSetDropInfo sampleLib twiceRemote ''7'' True page0)))
     = [alice, alice] \<and>
   map_option winners (dropInfo (snd (fetchAndSetDropInfo sampleLib twiceRemote ''7'' True page0)))
     = Some [alice] \<and>
   getAddress sampleLib ([alice, alice] ! 1) = getAddress sampleLib alice \<and>
   winnerIndices (snd (fetchAndSetDropInfo sampleLib twiceRemote ''7'' True page0)) = [0]"
proof -
  have 1: "BigInt sampleLib ''7'' = Inr 7"
    by (simp add: sampleLib_def sampleBigInt_def)
  have 2: "reply_getDropInfo twiceRemote (calls page0) 7
             = Inr (completedDrop\<lparr>dd_winnersAddresses := [alice]\<rparr>)"
    by (simp add: twiceRemote_def)
  have 3: "\<not> (dd_isSponsored (completedDrop\<lparr>dd_winnersAddresses := [alice]\<rparr>) \<and>
              dd_sponsor (completedDrop\<lparr>dd_winnersAddresses := [alice]\<rparr>) = ZERO_ADDRESS \<and>
              dd_isActive (completedDrop\<lparr>dd_winnersAddresses := [alice]\<rparr>))"
    by (simp add: completedDrop_def)
  have 4: "\<forall>h. reply_getDropParticipants twiceRemote h 7
             = Inr ([alice, alice], [''Alice'', ''Alice''])"
    by (simp add: twiceRemote_def)
  have 5: "winnerIndexList sampleLib
             (dd_winnersAddresses (completedDrop\<lparr>dd_winnersAddresses := [alice]\<rparr>))
             [alice, alice] = Inr [0]"
    by (simp add: winnerIndexList_def sameAddress_def sampleLib_def sampleGetAddress_def
          alice_def)
  from fetchAndSetDropInfo_success [OF sampleLib_normalises 1 2 3 4 5, of True]
  show ?thesis
    by (auto simp: completedDrop_def)
qed

section \<open>Properties of the actions\<close>

lemma someE_total:
  assumes "\<forall>x \<in> set xs. \<not> isl (f x)"
  shows "\<not> isl (someE f xs)"
  using assms
proof (induction xs)
  case Nil
  then show ?case by simp
next
  case (Cons x xs)
  then show ?case by (cases "f x") auto
qed

lemma sameAddress_not_isl:
  "\<not> isl (getAddress L a) \<Longrightarrow> \<not> isl (getAddress L b) \<Longrightarrow> \<not> isl (sameAddress L a b)"
  by (cases "getAddress L a"; cases "getAddress L b") (auto simp: sameAddress_def)


text \<open>
  C2: when the connected address and the host of the drop normalise to the same
  address, \<open>joinDrop\<close> makes no request at all, so neither \<open>approve\<close> nor \<open>joinDrop\<close> is
  submitted: it returns after one error toast and changes nothing else, or (only when
  the address of some participant does not normalise) it throws and changes nothing.
  The host of the record is a non-empty string: the guard \<open>dropInfo.host &&\<close> skips an
  empty one.
\<close>

theorem host_cannot_join:
  assumes d: "dropInfo w = Some d"
    and a: "h_address H = Some address"
    and host: "host d \<noteq> []"
    and same: "getAddress L (host d) = Inr x" "getAddress L address = Inr x"
  shows "\<exists>r w'. joinDrop L R H w = (r, w') \<and> calls w' = calls w \<and>
           (case r of
              Inl e \<Rightarrow> w' = w
            | Inr u \<Rightarrow> (\<exists>msg. w' = w\<lparr>toasts := toasts w @ [ToastError msg]\<rparr>)) \<and>
           ((\<forall>p \<in> set (participants w). \<not> isl (getAddress L (p_address p)))
              \<longrightarrow> r = Inr ())"
proof -
  have isHost: "sameAddress L (host d) address = Inr True"
    using same by (simp add: sameAddress_def)
  have total: "\<not> isl (someE (\<lambda>p. sameAddress L (p_address p) address) (participants w))"
    if "\<forall>p \<in> set (participants w). \<not> isl (getAddress L (p_address p))"
    using that same(2) by (intro someE_total) (simp add: sameAddress_not_isl)
  show ?thesis
  proof (cases "someE (\<lambda>p. sameAddress L (p_address p) address) (participants w)")
    case (Inl e)
    then show ?thesis
      using d a host isHost total
      by (cases "h_dropId H") (auto simp: joinDrop_def monad_defs toast_def)
  next
    case (Inr joined)
    then show ?thesis
      using d a host isHost
      by (cases "h_dropId H") (auto simp: joinDrop_def monad_defs toast_def)
  qed
qed


theorem host_cannot_join_witness:
  "\<exists>msg. joinDrop sampleLib deadRemote aliceHooks alicePage
     = (Inr (), alicePage\<lparr>toasts := toasts alicePage @ [ToastError msg]\<rparr>)"
proof -
  have 1: "dropInfo alicePage = Some aliceDrop"
    by (simp add: alicePage_def page0_def)
  have 2: "h_address aliceHooks = Some alice"
    by (simp add: aliceHooks_def)
  have 3: "host aliceDrop \<noteq> []"
    by (simp add: aliceDrop_def alice_def)
  have 4: "getAddress sampleLib (host aliceDrop) = Inr alice"
    "getAddress sampleLib alice = Inr alice"
    by (simp_all add: aliceDrop_def sampleLib_def sampleGetAddress_def alice_def)
  have 5: "\<forall>p \<in> set (participants alicePage). \<not> isl (getAddress sampleLib (p_address p))"
    by (simp add: alicePage_def page0_def sampleLib_def sampleGetAddress_def bob_def)
  show ?thesis
    using host_cannot_join [OF 1 2 3 4, of deadRemote] 5
    by auto
qed

text \<open>
  C5: when the local record has fewer participants than winners to select,
  \<open>selectWinnersManually\<close> makes no request, so nothing is written: with a wallet that
  is ready it throws \<open>Not enough participants.\<close>, which it also sets as the error and
  shows as an error toast; with a wallet that is not ready it shows the error toast of
  that guard and returns no indices.
\<close>

theorem too_few_participants:
  assumes d: "dropInfo w = Some d"
    and few: "currentParticipants d < int (numWinners d)"
  shows "selectWinnersManually L R H w =
           (if isConnecting H \<or> isWalletClientLoading H \<or> \<not> walletClient H
               \<or> h_address H = None \<or> h_address H = Some [] \<or> h_dropId H = None
               \<or> h_dropId H = Some []
            then (Inr [], w\<lparr>toasts := toasts w @
                    [ToastError ''Wallet not ready or drop info missing.'']\<rparr>)
            else (Inl (newError ''Not enough participants.''),
                  w\<lparr>actionInProgress := False,
                    error := Some ''Not enough participants.'',
                    toasts := toasts w @ [ToastError ''Not enough participants.'']\<rparr>))"
proof -
  have msg: "errorMessageOf (newError ''Not enough participants.'') ''Failed to select winners''
               = ''Not enough participants.''"
    by (simp add: errorMessageOf_def newError_def part_def)
  show ?thesis
    using d few
    by (cases "h_address H"; cases "h_dropId H")
       (auto simp: selectWinnersManually_def monad_defs toast_def msg)
qed


theorem too_few_participants_witness:
  "selectWinnersManually sampleLib deadRemote aliceHooks alicePage =
     (Inl (newError ''Not enough participants.''),
      alicePage\<lparr>actionInProgress := False,
        error := Some ''Not enough participants.'',
        toasts := toasts alicePage @ [ToastError ''Not enough participants.'']\<rparr>)"
proof -
  have 1: "dropInfo alicePage = Some aliceDrop"
    by (simp add: alicePage_def page0_def)
  have 2: "currentParticipants aliceDrop < int (numWinners aliceDrop)"
    by (simp add: aliceDrop_def)
  show ?thesis
    using too_few_participants [OF 1 2, of sampleLib deadRemote aliceHooks]
    by (simp add: aliceHooks_def alice_def)
qed

section \<open>Properties of the notification endpoint\<close>

lemma fetchChunk_frame:
  "\<exists>res w'. fetchChunk L R chunk results w = (Inr res, w') \<and>
     filter isNotificationSend (calls w') = filter isNotificationSend (calls w)"
proof (cases "reply_bulkByAddress R (calls w) chunk")
  case (Inl e)
  then show ?thesis by (simp add: fetchChunk_def request_def)
next
  case (Inr answer)
  show ?thesis
  proof (cases answer)
    case (BulkNotOk st)
    then show ?thesis using Inr by (simp add: fetchChunk_def request_def)
  next
    case (BulkData parsed)
    then show ?thesis
      using Inr
      by (cases parsed) (auto simp: fetchChunk_def request_def split: prod.splits)
  qed
qed

lemma fetchChunks_frame:
  "\<exists>res w'. fetchChunks L R chunks results w = (Inr res, w') \<and>
     filter isNotificationSend (calls w') = filter isNotificationSend (calls w)"
proof (induction chunks arbitrary: results w)
  case Nil
  then show ?case by (simp add: succeed_def)
next
  case (Cons chunk chunks)
  obtain res w1 where 1: "fetchChunk L R chunk results w = (Inr res, w1)"
    "filter isNotificationSend (calls w1) = filter isNotificationSend (calls w)"
    using fetchChunk_frame by blast
  from Cons [of res w1] obtain res' w2 where
    "fetchChunks L R chunks res w1 = (Inr res', w2)"
    "filter isNotificationSend (calls w2) = filter isNotificationSend (calls w1)"
    by blast
  with 1 show ?case by simp
qed

lemma fetchFarcasterProfiles_frame:
  "\<exists>r w'. fetchFarcasterProfiles L E R addresses w = (r, w') \<and>
     filter isNotificationSend (calls w') = filter isNotificationSend (calls w)"
proof (cases "mapE (getAddress L) addresses")
  case (Inl e)
  then show ?thesis
    by (simp add: fetchFarcasterProfiles_def monad_defs)
next
  case (Inr normalized)
  then show ?thesis
    using fetchChunks_frame [of L R _ _ w]
    by (fastforce simp add: fetchFarcasterProfiles_def monad_defs)
qed

lemma lookupProfiles_frame:
  "\<exists>r w'. lookupProfiles L E R d w = (r, w') \<and>
     filter isNotificationSend (calls w') = filter isNotificationSend (calls w)"
proof (cases "addressesToFetchOf L d")
  case (Inl e)
  then show ?thesis by (simp add: lookupProfiles_def monad_defs)
next
  case (Inr as)
  then show ?thesis
    using fetchFarcasterProfiles_frame [of L E R as w]
    by (simp add: lookupProfiles_def monad_defs)
qed

lemma mapE_Inr_nth:
  "mapE f xs = Inr ys \<Longrightarrow> length ys = length xs \<and> (\<forall>i < length xs. f (xs ! i) = Inr (ys ! i))"
proof (induction xs arbitrary: ys)
  case Nil
  then show ?case by simp
next
  case (Cons x xs)
  then obtain y ys' where y: "f x = Inr y" "mapE f xs = Inr ys'" "ys = y # ys'"
    by (auto split: sum.splits)
  with Cons.IH [of ys'] show ?case
    by (auto simp: nth_Cons split: nat.splits)
qed

lemma truthyFids_none: "(\<forall>f \<in> set fids. f = None) \<Longrightarrow> truthyFids fids = []"
  by (induction fids) (auto simp: truthyFids_def List.map_filter_simps)


text \<open>
  C3: a \<open>winners-selected\<close> dispatch in which the profiles looked up hold no FID for
  any winner address returns \<open>success = False\<close> with a message, and the requests made
  hold no call of the notification-send API that was not there before. This covers
  every way the handler can end: a missing \<open>dropId\<close>, an address that does not
  normalise, an invalid winner list and the empty audience.
\<close>

theorem winners_without_fid_not_notified:
  assumes cat: "nd_category d = ''winners-selected''"
    and none: "\<forall>profiles w1 ws a x p.
        lookupProfiles L E R (withHostAddress d) w = (Inr profiles, w1) \<longrightarrow>
        nd_winnerAddresses d = Some ws \<longrightarrow> a \<in> set ws \<longrightarrow> getAddress L a = Inr x \<longrightarrow>
        profiles x = Some p \<longrightarrow> fid p = None"
  shows "\<exists>msg w'.
           handleNotificationLogic L E R d w = (Inr \<lparr>success = False, r_message = msg\<rparr>, w') \<and>
           filter isNotificationSend (calls w') = filter isNotificationSend (calls w)"
proof -
  define d' where "d' = withHostAddress d"
  have cat': "nd_category d' = ''winners-selected''"
    and ws': "nd_winnerAddresses d' = nd_winnerAddresses d"
    using cat by (simp_all add: d'_def withHostAddress_def)
  obtain r w1 where look: "lookupProfiles L E R d' w = (r, w1)"
    and frame: "filter isNotificationSend (calls w1) = filter isNotificationSend (calls w)"
    using lookupProfiles_frame by blast
  show ?thesis
  proof (cases "truthy (nd_dropId d')")
    case False
    then show ?thesis
      using cat' by (simp add: handleNotificationLogic_def monad_defs d'_def [symmetric])
  next
    case True
    show ?thesis
    proof (cases r)
      case (Inl e)
      then show ?thesis
        using True look frame
        by (simp add: handleNotificationLogic_def monad_defs d'_def [symmetric])
    next
      case (Inr profiles)
      note rp = Inr
      have fail: "\<exists>msg. dispatch L E R d' profiles w1
                    = (Inr \<lparr>success = False, r_message = msg\<rparr>, w1) \<or>
                  (\<exists>e. dispatch L E R d' profiles w1 = (Inl e, w1))"
      proof (cases "nd_winnerAddresses d")
        case None
        then show ?thesis
          using cat' ws' by (simp add: dispatch_def monad_defs)
      next
        case (Some ws)
        show ?thesis
        proof (cases "\<exists>addr \<in> set ws. \<not> isAddress L addr")
          case True
          then show ?thesis
            using cat' ws' Some by (simp add: dispatch_def monad_defs)
        next
          case False
          let ?f = "\<lambda>addr. case getAddress L addr of
                              Inl e \<Rightarrow> Inl e
                            | Inr x \<Rightarrow> Inr (case profiles x of Some p \<Rightarrow> fid p | None \<Rightarrow> None)"
          show ?thesis
          proof (cases "mapE ?f ws")
            case (Inl e)
            then show ?thesis
              using cat' ws' Some False by (simp add: dispatch_def monad_defs)
          next
            case (Inr fids)
            have "f = None" if "f \<in> set fids" for f
            proof -
              from that obtain i where i: "i < length fids" "fids ! i = f"
                by (auto simp: in_set_conv_nth)
              from mapE_Inr_nth [OF Inr] i have fi: "i < length ws" "?f (ws ! i) = Inr f"
                by auto
              then obtain x where x: "getAddress L (ws ! i) = Inr x"
                "f = (case profiles x of Some p \<Rightarrow> fid p | None \<Rightarrow> None)"
                by (auto split: sum.splits)
              have "ws ! i \<in> set ws"
                using fi(1) by simp
              with none look rp Some x(1)
              have "\<forall>p. profiles x = Some p \<longrightarrow> fid p = None"
                unfolding d'_def by blast
              with x(2) show ?thesis
                by (cases "profiles x") auto
            qed
            then have "truthyFids fids = []"
              by (simp add: truthyFids_none)
            then show ?thesis
              using cat' ws' Some False Inr by (simp add: dispatch_def monad_defs)
          qed
        qed
      qed
      then show ?thesis
        using True look frame rp
        by (auto simp: handleNotificationLogic_def monad_defs d'_def [symmetric])
    qed
  qed
qed


lemma sample_getAddress: "length a = 42 \<Longrightarrow> getAddress sampleLib a = Inr a"
  by (simp add: sampleLib_def sampleGetAddress_def)

lemma sample_isAddress: "isAddress sampleLib a = (length a = 42)"
  by (simp add: sampleLib_def)

lemma sample_lengths: "length alice = 42" "length bob = 42" "length carol = 42"
  by (simp_all add: alice_def bob_def carol_def)

lemma sample_distinct: "alice \<noteq> bob" "alice \<noteq> carol" "bob \<noteq> carol" "bob \<noteq> alice"
  "carol \<noteq> alice" "carol \<noteq> bob" "alice \<noteq> ''undefined''" "bob \<noteq> ''undefined''"
  "carol \<noteq> ''undefined''" "alice \<noteq> []" "bob \<noteq> []" "carol \<noteq> []"
  by (simp_all add: alice_def bob_def carol_def)

theorem winners_without_fid_not_notified_witness:
  "\<exists>msg w'. handleNotificationLogic sampleLib sampleEnv deadRemote winnersPayload cachedServer
       = (Inr \<lparr>success = False, r_message = msg\<rparr>, w') \<and>
     filter isNotificationSend (calls w') = []"
proof -
  have look: "lookupProfiles sampleLib sampleEnv deadRemote (withHostAddress winnersPayload)
                cachedServer = (Inr [carol \<mapsto> nullProfile carol], cachedServer)"
    by (simp add: lookupProfiles_def addressesToFetchOf_def pushIfAddress_def
          withHostAddress_def winnersPayload_def absent_def truthy_def monad_defs
          fetchFarcasterProfiles_def sampleEnv_def cachedServer_def setAdd_def
          chunksOf.simps sample_getAddress sample_isAddress sample_lengths sample_distinct)
  have none: "\<forall>profiles w1 ws a x p.
        lookupProfiles sampleLib sampleEnv deadRemote (withHostAddress winnersPayload)
          cachedServer = (Inr profiles, w1) \<longrightarrow>
        nd_winnerAddresses winnersPayload = Some ws \<longrightarrow> a \<in> set ws \<longrightarrow>
        getAddress sampleLib a = Inr x \<longrightarrow> profiles x = Some p \<longrightarrow> fid p = None"
    by (auto simp: look nullProfile_def split: if_splits)
  have cat: "nd_category winnersPayload = ''winners-selected''"
    by (simp add: winnersPayload_def)
  show ?thesis
    using winners_without_fid_not_notified [OF cat none]
    by (simp add: cachedServer_def)
qed


text \<open>
  What \<open>joinDrop\<close> posts when \<open>bob\<close> joins the drop \<open>alice\<close> hosts: the body names the
  participant and no host.
\<close>

lemma joinDrop_posts_joinedPayload:
  "calls (snd (joinDrop sampleLib joinRemote bobHooks hostedPage)) =
     [SdkContext,
      WriteContract (contractAddress joinRemote) ''joinDrop'' [AInt 7, AStr ''User-0b0b''] 0,
      WaitForTransactionReceipt ''0xjoin'',
      PostSendNotification joinedPayload,
      ReadContract (contractAddress joinRemote) ''getDropInfo'' [AInt 7]]"
  by (simp add: joinDrop_def bobHooks_def aliceHooks_def hostedPage_def alicePage_def page0_def
        aliceDrop_def monad_defs toast_def sameAddress_def sample_getAddress sample_lengths
        sample_distinct joinDrop_payment_def sdk_context_def joinRemote_def deadRemote_def
        slice_last_def writeContract_def waitForTransactionReceipt_def postSendNotification_def
        joinedPayload_def absent_def detached_def fetchAndSetDropInfo_def getDropInfo_def
        sampleLib_def sampleBigInt_def sampleGetAddress_def reverted_def newError_def
        ZERO_ADDRESS_def alice_def bob_def)


lemma sendNeynarNotification_one:
  assumes "truthy (NEYNAR_API_KEY E)"
  shows "\<exists>r. sendNeynarNotification E R [n] m w =
           (Inr r, w\<lparr>calls := calls w @ [NeynarNotifications [n] m]\<rparr>)"
proof (cases "reply_notifications R (calls w) [n] m")
  case (Inl e)
  then show ?thesis
    using assms by (simp add: sendNeynarNotification_def monad_defs)
next
  case (Inr response)
  then show ?thesis
    using assms
    by (cases "json response")
       (auto simp: sendNeynarNotification_def monad_defs)
qed

text \<open>
  C4: on a body of the shape the join flow posts (a participant address, no host
  address) the handler sends one notification, and its audience is the FID of the
  participant alone, whatever the cache holds for the host: \<open>profiles[hostAddress]\<close> is
  looked up under the key \<open>undefined\<close>. The audience the claim states, host and
  participant, is not what the code computes.
\<close>

theorem joined_notification_omits_host:
  assumes shape: "d = absent\<lparr> nd_category := ''game-joined'', nd_dropId := Some dropId,
                           nd_participantAddress := Some a, nd_participantName := Some name,
                           nd_entryFee := fee, nd_rewardType := rt,
                           nd_transactionHash := tx \<rparr>"
    and dropId: "dropId \<noteq> []"
    and key: "truthy (NEYNAR_API_KEY E)"
    and a: "isAddress L a" "getAddress L a = Inr a" "a \<noteq> ''undefined''" "a \<noteq> []"
    and cached: "profileCache w a = Some p" "fid p = Some n" "n \<noteq> 0"
  shows "\<exists>r m. handleNotificationLogic L E R d w =
           (Inr r, w\<lparr>calls := calls w @ [NeynarNotifications [n] m]\<rparr>)"
proof -
  have d: "withHostAddress d = d"
    by (simp add: shape withHostAddress_def absent_def truthy_def)
  have look: "lookupProfiles L E R d w = (Inr [a \<mapsto> p], w)"
    using key a cached
    by (simp add: lookupProfiles_def addressesToFetchOf_def pushIfAddress_def shape absent_def
          monad_defs fetchFarcasterProfiles_def setAdd_def chunksOf.simps)
  have fids: "fidOf [a \<mapsto> p] ''undefined'' = []" "fidOf [a \<mapsto> p] a = [n]"
    using a(3) cached(2,3)
    by (auto simp: fidOf_def truthyFids_def List.map_filter_simps)
  define m where "m = \<lparr> title = ''New Participant! '',
               body = orElse (nd_participantName d)
                        (getDisplayName ([a \<mapsto> p] (propertyKey (nd_participantAddress d)))
                           (propertyKey (nd_participantAddress d)))
                      @ '' joined Drop #'' @ propertyKey (nd_dropId d) @ ''! Prize: ''
                      @ rewardDisplay d @ ''.'',
               target_url = dropUrl d \<rparr>"
  obtain r where send: "sendNeynarNotification E R [n] m w =
           (Inr r, w\<lparr>calls := calls w @ [NeynarNotifications [n] m]\<rparr>)"
    using sendNeynarNotification_one [OF key] by blast
  have cat: "nd_category d = ''game-joined''" "truthy (nd_dropId d)"
    using dropId by (simp_all add: shape absent_def truthy_def)
  have keys: "propertyKey (nd_hostAddress d) = ''undefined''"
    "propertyKey (nd_participantAddress d) = a" "nd_participantAddress d = Some a"
    by (simp_all add: shape absent_def propertyKey_def)
  have m: "\<lparr> title = ''New Participant! '',
               body = orElse (nd_participantName d) (getDisplayName ([a \<mapsto> p] a) a)
                      @ '' joined Drop #'' @ propertyKey (nd_dropId d) @ ''! Prize: ''
                      @ rewardDisplay d @ ''.'',
               target_url = dropUrl d \<rparr> = m"
    by (simp add: m_def keys propertyKey_def)
  have disp: "dispatch L E R d [a \<mapsto> p] w =
           (Inr r, w\<lparr>calls := calls w @ [NeynarNotifications [n] m]\<rparr>)"
    unfolding dispatch_def cat(1) keys(1,2) fids
    using send a(1) m keys(3) by simp
  show ?thesis
    using look disp cat
    by (auto simp: handleNotificationLogic_def d monad_defs)
qed


text \<open>
  \<open>alice\<close> hosts the drop and the cache knows her FID 11; \<open>bob\<close> joins, the page posts
  \<open>joinedPayload\<close>, and the only FID notified is \<open>bob\<close>'s 22.
\<close>

theorem joined_notification_omits_host_witness:
  "host aliceDrop = alice \<and>
   map_option fid (profileCache cachedServer alice) = Some (Some 11) \<and>
   PostSendNotification joinedPayload
     \<in> set (calls (snd (joinDrop sampleLib joinRemote bobHooks hostedPage))) \<and>
   (\<exists>r m. handleNotificationLogic sampleLib sampleEnv joinRemote joinedPayload cachedServer =
           (Inr r, cachedServer\<lparr>calls := [NeynarNotifications [22] m]\<rparr>))"
proof -
  have 1: "joinedPayload = absent\<lparr> nd_category := ''game-joined'', nd_dropId := Some ''7'',
                           nd_participantAddress := Some bob,
                           nd_participantName := Some ''User-0b0b'',
                           nd_entryFee := Some ''Free'', nd_rewardType := Some ETH,
                           nd_transactionHash := Some ''0xjoin'' \<rparr>"
    by (simp add: joinedPayload_def)
  have 2: "truthy (NEYNAR_API_KEY sampleEnv)"
    by (simp add: sampleEnv_def truthy_def)
  have 3: "isAddress sampleLib bob" "getAddress sampleLib bob = Inr bob"
    "bob \<noteq> ''undefined''" "bob \<noteq> []"
    by (simp_all add: sample_isAddress sample_getAddress sample_lengths sample_distinct)
  have 4: "profileCache cachedServer bob
             = Some \<lparr>fid = Some 22, username = Some ''bob'', displayName = None,
                      pfpUrl = None, custodyAddress = bob\<rparr>"
    by (simp add: cachedServer_def sample_distinct)
  have 5: "map_option fid (profileCache cachedServer alice) = Some (Some 11)"
    by (simp add: cachedServer_def sample_distinct)
  have 6: "calls cachedServer = []"
    by (simp add: cachedServer_def)
  show ?thesis
    using joined_notification_omits_host [OF 1 _ 2 3 4, of 22 joinRemote]
      joinDrop_posts_joinedPayload 5 6
    by (simp add: aliceDrop_def)
qed


section \<open>Properties of the frame handler\<close>

lemma tryCatch_total:
  assumes "\<And>e w. \<exists>x w'. h e w = (Inr x, w')"
  shows "\<exists>x w'. tryCatch m h w = (Inr x, w')"
proof (cases "m w")
  case (Pair r w1)
  then show ?thesis
    using assms by (cases r) (auto simp: tryCatch_def)
qed

lemma getMinimalDropDataForFrame_total:
  "\<exists>data w2. getMinimalDropDataForFrame L E R s w = (Inr data, w2)"
  unfolding getMinimalDropDataForFrame_def
  by (rule tryCatch_total) (simp add: succeed_def)

lemma andThen_reads:
  assumes "\<And>w. filter isRemoteRead (calls (snd (m w))) = filter isRemoteRead (calls w)"
    and "\<And>x w. filter isRemoteRead (calls (snd (f x w))) = filter isRemoteRead (calls w)"
  shows "filter isRemoteRead (calls (snd (andThen m f w))) = filter isRemoteRead (calls w)"
proof (cases "m w")
  case (Pair r w1)
  then have "filter isRemoteRead (calls w1) = filter isRemoteRead (calls w)"
    using assms(1) [of w] by simp
  then show ?thesis
    using Pair assms(2) by (cases r) (simp_all add: andThen_def)
qed

lemma load_step_reads:
  assumes "\<And>m w. calls (U m w) = calls w"
  shows "filter isRemoteRead
           (calls (snd (if V w = None then andThen (importModule R n) (\<lambda>m. modify (U m)) w
                        else succeed () w)))
         = filter isRemoteRead (calls w)"
  using assms
  by (cases "reply_import R (calls w) n") (simp_all add: importModule_def monad_defs)

lemma ensureModulesLoaded_reads:
  "filter isRemoteRead (calls (snd (ensureModulesLoaded R w))) = filter isRemoteRead (calls w)"
  unfolding ensureModulesLoaded_def
  by (intro andThen_reads load_step_reads) simp_all


lemma serveOriginalIndex_run:
  "serveOriginalIndex R w =
     (Inr (),
      w\<lparr>calls := calls w @ [ReadIndexHtml],
        response := Some (case reply_readIndexHtml R (calls w) of
                            Inr html \<Rightarrow> \<lparr>r_status = 200, r_contentType = Some ''text/html'',
                                          r_body = html\<rparr>
                          | Inl e \<Rightarrow> \<lparr>r_status = 500, r_contentType = None,
                                       r_body = ''Critical error serving fallback: ''
                                                @ message e\<rparr>)\<rparr>)"
  by (cases "reply_readIndexHtml R (calls w)")
     (simp_all add: serveOriginalIndex_def readIndexHtml_def send_def monad_defs)

text \<open>
  C8, as the code has it. Once the modules are loaded: for a drop id that is not a
  non-empty string of decimal digits the handler makes no remote read and answers from
  \<open>serveOriginalIndex\<close>, that is, with the unmodified page and status 200 when the page
  can be read and with status 500 and a critical-error text when it cannot. For a valid
  drop id the lookup of the drop never throws; the page is served with the frame block
  injected (with \<open>an exciting prize\<close> when the lookup failed), and when reading the page
  throws inside the \<open>try\<close> the handler answers from \<open>serveOriginalIndex\<close> as above.
\<close>

theorem frame_handler_fallback:
  assumes loaded: "ensureModulesLoaded R w = (Inr (), w1)"
  shows "((\<forall>s. query = QString s \<longrightarrow> \<not> isDigits s) \<longrightarrow>
            handler L E R query w =
              (Inr (),
               w1\<lparr>calls := calls w1 @ [ReadIndexHtml],
                 response := Some (case reply_readIndexHtml R (calls w1) of
                            Inr html \<Rightarrow> \<lparr>r_status = 200, r_contentType = Some ''text/html'',
                                          r_body = html\<rparr>
                          | Inl e \<Rightarrow> \<lparr>r_status = 500, r_contentType = None,
                                       r_body = ''Critical error serving fallback: ''
                                                @ message e\<rparr>)\<rparr>) \<and>
            filter isRemoteRead (calls w1 @ [ReadIndexHtml]) = filter isRemoteRead (calls w)) \<and>
         (\<forall>s. query = QString s \<and> isDigits s \<longrightarrow>
            (\<exists>data w2.
               getMinimalDropDataForFrame L E R s w1 = (Inr data, w2) \<and>
               handler L E R query w =
                 (Inr (),
                  case reply_readIndexHtml R (calls w2) of
                    Inr html \<Rightarrow>
                      w2\<lparr>calls := calls w2 @ [ReadIndexHtml],
                        response := Some
                          \<lparr>r_status = 200, r_contentType = Some ''text/html'',
                           r_body = injectFrameMeta L
                                      (orElse (APP_URL E) ''https://fireball-rho.vercel.app'') s
                                      (case data of Some x \<Rightarrow> x | None \<Rightarrow> ''an exciting prize'')
                                      html\<rparr>\<rparr>
                  | Inl e \<Rightarrow>
                      w2\<lparr>calls := calls w2 @ [ReadIndexHtml, ReadIndexHtml],
                        response := Some
                          (case reply_readIndexHtml R (calls w2 @ [ReadIndexHtml]) of
                             Inr html \<Rightarrow> \<lparr>r_status = 200, r_contentType = Some ''text/html'',
                                           r_body = html\<rparr>
                           | Inl e' \<Rightarrow> \<lparr>r_status = 500, r_contentType = None,
                                         r_body = ''Critical error serving fallback: ''
                                                  @ message e'\<rparr>)\<rparr>)))"
proof (intro conjI impI allI)
  assume invalid: "\<forall>s. query = QString s \<longrightarrow> \<not> isDigits s"
  then show "handler L E R query w =
              (Inr (),
               w1\<lparr>calls := calls w1 @ [ReadIndexHtml],
                 response := Some (case reply_readIndexHtml R (calls w1) of
                            Inr html \<Rightarrow> \<lparr>r_status = 200, r_contentType = Some ''text/html'',
                                          r_body = html\<rparr>
                          | Inl e \<Rightarrow> \<lparr>r_status = 500, r_contentType = None,
                                       r_body = ''Critical error serving fallback: ''
                                                @ message e\<rparr>)\<rparr>)"
    using loaded
    by (cases query) (simp_all add: handler_def andThen_def serveOriginalIndex_run)
next
  show "filter isRemoteRead (calls w1 @ [ReadIndexHtml]) = filter isRemoteRead (calls w)"
    using ensureModulesLoaded_reads [of R w] loaded by simp
next
  fix s
  assume valid: "query = QString s \<and> isDigits s"
  obtain data w2 where run: "getMinimalDropDataForFrame L E R s w1 = (Inr data, w2)"
    using getMinimalDropDataForFrame_total by blast
  have "handler L E R query w =
                 (Inr (),
                  case reply_readIndexHtml R (calls w2) of
                    Inr html \<Rightarrow>
                      w2\<lparr>calls := calls w2 @ [ReadIndexHtml],
                        response := Some
                          \<lparr>r_status = 200, r_contentType = Some ''text/html'',
                           r_body = injectFrameMeta L
                                      (orElse (APP_URL E) ''https://fireball-rho.vercel.app'') s
                                      (case data of Some x \<Rightarrow> x | None \<Rightarrow> ''an exciting prize'')
                                      html\<rparr>\<rparr>
                  | Inl e \<Rightarrow>
                      w2\<lparr>calls := calls w2 @ [ReadIndexHtml, ReadIndexHtml],
                        response := Some
                          (case reply_readIndexHtml R (calls w2 @ [ReadIndexHtml]) of
                             Inr html \<Rightarrow> \<lparr>r_status = 200, r_contentType = Some ''text/html'',
                                           r_body = html\<rparr>
                           | Inl e' \<Rightarrow> \<lparr>r_status = 500, r_contentType = None,
                                         r_body = ''Critical error serving fallback: ''
                                                  @ message e'\<rparr>)\<rparr>)"
    using valid loaded run
    by (cases "reply_readIndexHtml R (calls w2)")
       (simp_all add: handler_def andThen_def tryCatch_def serveOriginalIndex_run
          readIndexHtml_def request_def send_def modify_def)
  with run show "\<exists>data w2.
               getMinimalDropDataForFrame L E R s w1 = (Inr data, w2) \<and>
               handler L E R query w =
                 (Inr (),
                  case reply_readIndexHtml R (calls w2) of
                    Inr html \<Rightarrow>
                      w2\<lparr>calls := calls w2 @ [ReadIndexHtml],
                        response := Some
                          \<lparr>r_status = 200, r_contentType = Some ''text/html'',
                           r_body = injectFrameMeta L
                                      (orElse (APP_URL E) ''https://fireball-rho.vercel.app'') s
                                      (case data of Some x \<Rightarrow> x | None \<Rightarrow> ''an exciting prize'')
                                      html\<rparr>\<rparr>
                  | Inl e \<Rightarrow>
                      w2\<lparr>calls := calls w2 @ [ReadIndexHtml, ReadIndexHtml],
                        response := Some
                          (case reply_readIndexHtml R (calls w2 @ [ReadIndexHtml]) of
                             Inr html \<Rightarrow> \<lparr>r_status = 200, r_contentType = Some ''text/html'',
                                           r_body = html\<rparr>
                           | Inl e' \<Rightarrow> \<lparr>r_status = 500, r_contentType = None,
                                         r_body = ''Critical error serving fallback: ''
                                                  @ message e'\<rparr>)\<rparr>)"
    by blast
qed


lemma sample_modules_load:
  "reply_import R = (\<lambda>h m. Inr True) \<Longrightarrow> ensureModulesLoaded R frame0 = (Inr (), loadedFrame)"
  by (simp add: ensureModulesLoaded_def importModule_def monad_defs frame0_def loadedFrame_def)

theorem frame_handler_fallback_witness:
  "handler sampleLib sampleEnv pageRemote (QString ''7a'') frame0 =
     (Inr (),
      loadedFrame\<lparr>calls := calls loadedFrame @ [ReadIndexHtml],
        response := Some \<lparr>r_status = 200, r_contentType = Some ''text/html'',
                          r_body = ''<html><head></head></html>''\<rparr>\<rparr>) \<and>
   filter isRemoteRead (calls loadedFrame @ [ReadIndexHtml]) = []"
proof -
  have 1: "ensureModulesLoaded pageRemote frame0 = (Inr (), loadedFrame)"
    by (rule sample_modules_load) (simp add: pageRemote_def)
  have 2: "\<forall>s. QString ''7a'' = QString s \<longrightarrow> \<not> isDigits s"
    by (simp add: isDigits_def)
  have 3: "reply_readIndexHtml pageRemote (calls loadedFrame) = Inr ''<html><head></head></html>''"
    by (simp add: pageRemote_def)
  show ?thesis
    using frame_handler_fallback [OF 1, of "QString ''7a''" sampleLib sampleEnv] 2 3
    by (simp add: frame0_def)
qed

text \<open>
  The claim as the specification states it fails when the page cannot be read: the
  request with the malformed drop id \<open>7a\<close> is answered with status 500 and an error text,
  not with the page.
\<close>

theorem frame_handler_fallback_counterexample:
  "handler sampleLib sampleEnv noPageRemote (QString ''7a'') frame0 =
     (Inr (),
      loadedFrame\<lparr>calls := calls loadedFrame @ [ReadIndexHtml],
        response := Some \<lparr>r_status = 500, r_contentType = None,
                          r_body = ''Critical error serving fallback: ENOENT: no such file or directory''\<rparr>\<rparr>)"
proof -
  have 1: "ensureModulesLoaded noPageRemote frame0 = (Inr (), loadedFrame)"
    by (rule sample_modules_load) (simp add: noPageRemote_def)
  have 2: "reply_readIndexHtml noPageRemote (calls loadedFrame)
             = Inl (newError ''ENOENT: no such file or directory'')"
    by (simp add: noPageRemote_def)
  show ?thesis
    using 1 2
    by (simp add: handler_def andThen_def isDigits_def serveOriginalIndex_run newError_def)
qed


section \<open>Properties of the creation form\<close>

lemma validateInputs_counts:
  assumes "\<not> (\<exists>p. parseInt L (form_maxParticipants w) = Some p \<and> 1 \<le> p \<and> p \<le> 100 \<and>
                 1 \<le> form_numWinners w \<and> form_numWinners w \<le> min 3 (p - 1))"
  shows "\<exists>msg. validateInputs L w = (Inr False, w\<lparr>errorMessage := Some msg\<rparr>)"
proof (cases "parseInt L (form_maxParticipants w)")
  case None
  then show ?thesis
    by (auto simp: validateInputs_def invalid_def andThen_def modify_def)
next
  case (Some p)
  with assms have "p \<le> 0 \<or> p > MAX_PARTICIPANTS_LIMIT \<or> form_numWinners w \<le> 0
      \<or> form_numWinners w > MAX_WINNERS_LIMIT \<or> form_numWinners w \<ge> p"
    by (auto simp: MAX_PARTICIPANTS_LIMIT_def MAX_WINNERS_LIMIT_def)
  then show ?thesis
    using Some by (auto simp: validateInputs_def invalid_def andThen_def modify_def)
qed

lemma validateInputs_True:
  assumes "fst (validateInputs L w) = Inr True"
  shows "\<exists>p. parseInt L (form_maxParticipants w) = Some p \<and> 1 \<le> p \<and> p \<le> 100 \<and>
               1 \<le> form_numWinners w \<and> form_numWinners w \<le> min 3 (p - 1) \<and>
               form_numWinners w < p"
proof (rule ccontr)
  assume "\<not> ?thesis"
  then have "\<not> (\<exists>p. parseInt L (form_maxParticipants w) = Some p \<and> 1 \<le> p \<and> p \<le> 100 \<and>
                 1 \<le> form_numWinners w \<and> form_numWinners w \<le> min 3 (p - 1))"
    by auto
  from validateInputs_counts [OF this] assms show False
    by auto
qed

text \<open>
  C10: unless the participants field parses to a number from 1 to 100 and the number
  of winners lies between 1 and \<open>min(3, participants - 1)\<close>, \<open>validateInputs\<close> returns
  false (setting an error message) and \<open>handleSubmit\<close> ends after one error toast with
  no request made, so nothing is written. Conversely, where \<open>validateInputs\<close> returns
  true the bounds hold, and with them fewer winners than participants.
\<close>

theorem invalid_counts_rejected:
  "(\<not> (\<exists>p. parseInt L (form_maxParticipants w) = Some p \<and> 1 \<le> p \<and> p \<le> 100 \<and>
            1 \<le> form_numWinners w \<and> form_numWinners w \<le> min 3 (p - 1)) \<longrightarrow>
      (\<exists>msg. validateInputs L w = (Inr False, w\<lparr>errorMessage := Some msg\<rparr>)) \<and>
      (\<exists>t w'. handleSubmit L R H w = (Inr (), w') \<and> calls w' = calls w \<and>
               toasts w' = toasts w @ [ToastError t])) \<and>
   (fst (validateInputs L w) = Inr True \<longrightarrow>
      (\<exists>p. parseInt L (form_maxParticipants w) = Some p \<and> 1 \<le> p \<and> p \<le> 100 \<and>
           1 \<le> form_numWinners w \<and> form_numWinners w \<le> min 3 (p - 1) \<and>
           form_numWinners w < p))"
proof (intro conjI impI)
  assume bad: "\<not> (\<exists>p. parseInt L (form_maxParticipants w) = Some p \<and> 1 \<le> p \<and> p \<le> 100 \<and>
            1 \<le> form_numWinners w \<and> form_numWinners w \<le> min 3 (p - 1))"
  from validateInputs_counts [OF bad]
  obtain msg where v: "validateInputs L w = (Inr False, w\<lparr>errorMessage := Some msg\<rparr>)"
    by blast
  then show "\<exists>msg. validateInputs L w = (Inr False, w\<lparr>errorMessage := Some msg\<rparr>)"
    by blast
  show "\<exists>t w'. handleSubmit L R H w = (Inr (), w') \<and> calls w' = calls w \<and>
               toasts w' = toasts w @ [ToastError t]"
    using v by (simp add: handleSubmit_def andThen_def toast_def modify_def)
next
  assume "fst (validateInputs L w) = Inr True"
  then show "\<exists>p. parseInt L (form_maxParticipants w) = Some p \<and> 1 \<le> p \<and> p \<le> 100 \<and>
           1 \<le> form_numWinners w \<and> form_numWinners w \<le> min 3 (p - 1) \<and>
           form_numWinners w < p"
    by (rule validateInputs_True)
qed

theorem invalid_counts_rejected_witness:
  "(\<exists>msg. validateInputs sampleLib twoOfTwo = (Inr False, twoOfTwo\<lparr>errorMessage := Some msg\<rparr>)) \<and>
   (\<exists>t w'. handleSubmit sampleLib deadRemote aliceHooks twoOfTwo = (Inr (), w') \<and>
            calls w' = [] \<and> toasts w' = [ToastError t])"
proof -
  have "\<not> (\<exists>p. parseInt sampleLib (form_maxParticipants twoOfTwo) = Some p \<and> 1 \<le> p \<and>
              p \<le> 100 \<and> 1 \<le> form_numWinners twoOfTwo \<and>
              form_numWinners twoOfTwo \<le> min 3 (p - 1))"
    by (simp add: sampleLib_def sampleParseInt_def twoOfTwo_def form0_def)
  then show ?thesis
    using invalid_counts_rejected [of sampleLib twoOfTwo deadRemote aliceHooks]
    by (simp add: twoOfTwo_def form0_def)
qed


end
